theory Spec2Isabelle
  imports Complex_Main
begin

section \<open>Common types\<close>

text \<open>
  A stored document identifier (a Mongoose ObjectId) is modelled by the string that
  \<^verbatim>\<open>toString()\<close> gives for it, so that \<^verbatim>\<open>p.playerId.toString() === playerId\<close> is
  equality of the stored id with the string passed. A \<^verbatim>\<open>Date\<close> is its millisecond
  time stamp. The statistics of the points calculator are integers and its points are exact
  rationals; the budget arithmetic of the squad manager is binary64 arithmetic with
  its rounding.
  A method is modelled by the document it leaves in memory, together with its failure, if
  any. Of \<^verbatim>\<open>this.save()\<close> the model keeps what the schemas themselves add to it: the
  validators of the paths that \<^verbatim>\<open>addPlayer\<close> and \<^verbatim>\<open>removePlayer\<close> assign, the
  \<^verbatim>\<open>pre('save')\<close> hook of the Season schema, and for teams the write to the collection
  that the queries of the Team schema read. Time stamps kept by the library and storage
  failures are outside the model.
\<close>

type_synonym objectId = string
type_synonym date = int

section \<open>PlayerStats: the fantasy points calculator\<close>

record IPerformanceStats =
  appearances :: int
  starts :: int
  minutesPlayed :: int
  goals :: int
  assists :: int
  yellowCards :: int
  redCards :: int
  cleanSheets :: int
  saves :: int
  penaltiesSaved :: int
  penaltiesMissed :: int
  ownGoals :: int

record IFantasyStats =
  fantasyPoints :: rat
  averagePoints :: rat
  pointsPerMinute :: rat
  currentPrice :: rat
  priceChangeTotal :: rat
  selectedByPercent :: rat
  transfersIn :: int
  transfersOut :: int
  transfersInRound :: int
  transfersOutRound :: int

record IPlayerStats =
  playerId :: objectId
  seasonId :: objectId
  teamId :: "objectId option"
  gameweek :: "int option"
  performance :: IPerformanceStats
  fantasy :: IFantasyStats
  isActive :: bool
  lastUpdated :: date

text \<open>The local variable \<^verbatim>\<open>points\<close> of \<^verbatim>\<open>updateFantasyPoints\<close>, after the ten
  weighted additions and subtractions, in the order of the source.\<close>

definition statPoints :: "IPerformanceStats \<Rightarrow> rat" where
  "statPoints p =
     0 + of_int (appearances p) * 1
       + of_int (goals p) * 4
       + of_int (assists p) * 3
       + of_int (cleanSheets p) * 4
       + of_int (saves p) * (1 / 2)
       + of_int (penaltiesSaved p) * 5
       - of_int (penaltiesMissed p) * 2
       - of_int (yellowCards p) * 1
       - of_int (redCards p) * 3
       - of_int (ownGoals p) * 2"

text \<open>The minutes bonus: the \<^verbatim>\<open>if / else if\<close> on \<^verbatim>\<open>minutesPlayed\<close>.\<close>

definition minutesBonus :: "IPerformanceStats \<Rightarrow> rat" where
  "minutesBonus p =
     (if minutesPlayed p \<ge> 60 then 2
      else if minutesPlayed p \<ge> 1 then 1
      else 0)"

definition updateFantasyPoints :: "IPlayerStats \<Rightarrow> IPlayerStats" where
  "updateFantasyPoints this =
     (let p = performance this;
          points = statPoints p + minutesBonus p;
          fp = max 0 points;
          avg = (if appearances p > 0 then fp / of_int (appearances p) else 0);
          ppm = (if minutesPlayed p > 0 then fp / of_int (minutesPlayed p) else 0)
      in this\<lparr>fantasy := (fantasy this)\<lparr>fantasyPoints := fp,
                                           averagePoints := avg,
                                           pointsPerMinute := ppm\<rparr>\<rparr>)"

text \<open>The position-weighted goal values of the constant table \<^verbatim>\<open>FANTASY_POINTS\<close>
  in the shared type definitions; no function of the calculator reads them.\<close>

definition GOAL_GOALKEEPER :: rat where "GOAL_GOALKEEPER = 6"
definition GOAL_DEFENDER :: rat where "GOAL_DEFENDER = 6"
definition GOAL_MIDFIELDER :: rat where "GOAL_MIDFIELDER = 5"
definition GOAL_FORWARD :: rat where "GOAL_FORWARD = 4"

text \<open>Concrete snapshots for the evaluations below.\<close>

definition sampleStats :: IPerformanceStats where
  "sampleStats = \<lparr>appearances = 3, starts = 3, minutesPlayed = 270, goals = 0, assists = 1,
     yellowCards = 1, redCards = 0, cleanSheets = 2, saves = 7, penaltiesSaved = 1,
     penaltiesMissed = 0, ownGoals = 0\<rparr>"

definition sampleFantasy :: IFantasyStats where
  "sampleFantasy = \<lparr>fantasyPoints = 0, averagePoints = 0, pointsPerMinute = 0,
     currentPrice = 4, priceChangeTotal = 0, selectedByPercent = 0, transfersIn = 0,
     transfersOut = 0, transfersInRound = 0, transfersOutRound = 0\<rparr>"

definition samplePlayerStats :: "IPerformanceStats \<Rightarrow> IPlayerStats" where
  "samplePlayerStats p = \<lparr>playerId = ''p1'', seasonId = ''s1'', teamId = None, gameweek = None,
     performance = p, fantasy = sampleFantasy, isActive = True, lastUpdated = 0\<rparr>"

section \<open>Binary64 arithmetic\<close>

text \<open>
  The budget fields and the prices are JavaScript numbers, that is binary64 floating-point
  numbers, and \<^verbatim>\<open>-=\<close> and \<^verbatim>\<open>+=\<close> round their exact result to the nearest such
  number, ties to the even significand. A finite number is modelled by the rational it
  denotes. A significand has 53 bits, and the least exponent of the last bit is -1074.
  Results of magnitude \<open>2 ^ 1024\<close> and more, infinities and NaN are outside the model.
\<close>

fun bitLength :: "nat \<Rightarrow> nat" where
  "bitLength n = (if n = 0 then 0 else Suc (bitLength (n div 2)))"

declare bitLength.simps [simp del]

text \<open>For \<open>x > 0\<close>, the exponent \<open>k\<close> with \<open>2 ^ k \<le> x < 2 ^ (k + 1)\<close>.\<close>

definition floorLog2 :: "rat \<Rightarrow> int" where
  "floorLog2 x = (if x \<ge> 1 then int (bitLength (nat \<lfloor>x\<rfloor>)) - 1
                  else - int (bitLength (nat (\<lceil>1 / x\<rceil> - 1))))"

definition pow2 :: "int \<Rightarrow> rat" where
  "pow2 e = (if e \<ge> 0 then 2 ^ nat e else 1 / 2 ^ nat (- e))"

definition roundHalfEven :: "rat \<Rightarrow> int" where
  "roundHalfEven m =
     (let f = \<lfloor>m\<rfloor>; r = m - of_int f
      in if r < 1 / 2 then f else if r > 1 / 2 then f + 1 else if even f then f else f + 1)"

definition round64 :: "rat \<Rightarrow> rat" where
  "round64 x =
     (if x = 0 then 0
      else (let e = max (floorLog2 \<bar>x\<bar> - 52) (- 1074)
            in of_int (roundHalfEven (x / pow2 e)) * pow2 e))"

definition fadd :: "rat \<Rightarrow> rat \<Rightarrow> rat" where
  "fadd a b = round64 (a + b)"

definition fsub :: "rat \<Rightarrow> rat \<Rightarrow> rat" where
  "fsub a b = round64 (a - b)"

section \<open>FantasyTeam: the squad manager\<close>

datatype FantasyTeamStatus = ACTIVE | COMPLETED | ABANDONED

record IPlayerSelection =
  playerId :: objectId
  purchasePrice :: rat
  currentValue :: "rat option"
  isCaptain :: bool
  isViceCaptain :: bool
  isStarting :: bool
  addedAt :: date

record IFantasyTeam =
  name :: string
  userId :: objectId
  seasonId :: objectId
  players :: "IPlayerSelection list"
  budget :: rat
  remainingBudget :: rat
  totalValue :: rat
  totalPoints :: rat
  gameweekPoints :: rat
  rank :: rat
  freeTransfers :: rat
  usedTransfers :: rat
  transferCost :: rat
  status :: FantasyTeamStatus
  isPublic :: bool

text \<open>
  The ways a squad method fails. The first four are its \<^verbatim>\<open>throw new Error(...)\<close>, with
  the messages \<^verbatim>\<open>Squad is full. Cannot add more players.\<close>,
  \<^verbatim>\<open>Insufficient budget to add this player.\<close>, \<^verbatim>\<open>Player is already in the squad.\<close>
  and \<^verbatim>\<open>Player not found in squad.\<close> \<open>InvalidObjectId\<close> is the error that
  \<^verbatim>\<open>new mongoose.Types.ObjectId(playerId)\<close> throws, and \<open>ValidationFailed\<close> is the rejection
  of the promise that \<^verbatim>\<open>this.save()\<close> returns when a validator of the schema fails.
\<close>

datatype squadError =
    SquadFull | InsufficientBudget | DuplicatePlayer | PlayerNotFound
  | InvalidObjectId | ValidationFailed

text \<open>
  A stored \<open>objectId\<close> is the string that \<^verbatim>\<open>toString()\<close> gives for it: 24 hexadecimal
  digits in lower case. \<open>isValidObjectId\<close> is the repository's test of an id string, which
  admits both cases, and \<open>ObjectId\<close> is the constructor on the strings that pass it: it
  keeps the 12 bytes the digits denote, so the case of the argument is lost. On a string
  that fails the test the constructor is taken to throw.
\<close>

definition isHexDigit :: "char \<Rightarrow> bool" where
  "isHexDigit c = (c \<in> set ''0123456789abcdefABCDEF'')"

definition isValidObjectId :: "string \<Rightarrow> bool" where
  "isValidObjectId s = (length s = 24 \<and> list_all isHexDigit s)"

definition lowerHex :: "char \<Rightarrow> char" where
  "lowerHex c =
     (if c = CHR ''A'' then CHR ''a'' else if c = CHR ''B'' then CHR ''b''
      else if c = CHR ''C'' then CHR ''c'' else if c = CHR ''D'' then CHR ''d''
      else if c = CHR ''E'' then CHR ''e'' else if c = CHR ''F'' then CHR ''f''
      else c)"

definition ObjectId :: "string \<Rightarrow> objectId option" where
  "ObjectId s = (if isValidObjectId s then Some (map lowerHex s) else None)"

text \<open>The validators of the schema on the paths that the squad methods assign: the
  \<^verbatim>\<open>players\<close> array, the fields of a selection, \<^verbatim>\<open>remainingBudget\<close> and
  \<^verbatim>\<open>totalValue\<close>.\<close>

definition playersValidator :: "IPlayerSelection list \<Rightarrow> bool" where
  "playersValidator ps = (length ps \<le> 15)"

definition selectionValidator :: "IPlayerSelection \<Rightarrow> bool" where
  "selectionValidator p =
     (purchasePrice p \<ge> 0 \<and> (case currentValue p of None \<Rightarrow> True | Some v \<Rightarrow> v \<ge> 0))"

definition budgetValidator :: "IFantasyTeam \<Rightarrow> bool" where
  "budgetValidator t = (remainingBudget t \<ge> 0 \<and> totalValue t \<ge> 0)"

text \<open>\<^verbatim>\<open>Array.prototype.findIndex\<close>: the first index whose element satisfies the
  predicate, and -1 when there is none.\<close>

fun findIndex :: "('a \<Rightarrow> bool) \<Rightarrow> 'a list \<Rightarrow> int" where
  "findIndex P [] = - 1"
| "findIndex P (x # xs) =
     (if P x then 0
      else (let i = findIndex P xs in if i = - 1 then - 1 else i + 1))"

text \<open>\<^verbatim>\<open>splice(i, 1)\<close> at an index inside the array.\<close>

definition splice1 :: "nat \<Rightarrow> 'a list \<Rightarrow> 'a list" where
  "splice1 i xs = take i xs @ drop (Suc i) xs"

text \<open>
  Each method returns its failure, if any, together with the document as the call
  leaves it. \<^verbatim>\<open>new Date()\<close> is the parameter \<open>now\<close>; the parameter
  \<open>starting\<close> is \<^verbatim>\<open>isStarting\<close>, which a caller that omits it passes as true.
  A method that throws has not yet assigned anything. \<open>addPlayer\<close> and \<open>removePlayer\<close> end
  in \<^verbatim>\<open>this.save()\<close> after their assignments: when the validators of the assigned
  paths reject the document the call fails and the assignments stay. The two captain
  methods assign only flags, which no validator reads.
\<close>

definition addPlayer ::
  "IFantasyTeam \<Rightarrow> string \<Rightarrow> rat \<Rightarrow> bool \<Rightarrow> date \<Rightarrow> squadError option \<times> IFantasyTeam" where
  "addPlayer this pid price starting now =
     (if length (players this) \<ge> 15 then (Some SquadFull, this)
      else if remainingBudget this < price then (Some InsufficientBudget, this)
      else if find (\<lambda>p. IPlayerSelection.playerId p = pid) (players this) \<noteq> None
        then (Some DuplicatePlayer, this)
      else (case ObjectId pid of
              None \<Rightarrow> (Some InvalidObjectId, this)
            | Some oid \<Rightarrow>
                (let selection = \<lparr>IPlayerSelection.playerId = oid, purchasePrice = price,
                       currentValue = None, isCaptain = False, isViceCaptain = False,
                       isStarting = starting, addedAt = now\<rparr>;
                     this' = this\<lparr>players := players this @ [selection],
                       remainingBudget := fsub (remainingBudget this) price,
                       totalValue := fadd (totalValue this) price\<rparr>
                 in if playersValidator (players this') \<and> selectionValidator selection
                       \<and> budgetValidator this'
                    then (None, this') else (Some ValidationFailed, this'))))"

definition removePlayer :: "IFantasyTeam \<Rightarrow> string \<Rightarrow> squadError option \<times> IFantasyTeam" where
  "removePlayer this pid =
     (let playerIndex = findIndex (\<lambda>p. IPlayerSelection.playerId p = pid) (players this)
      in if playerIndex = - 1 then (Some PlayerNotFound, this)
         else (let player = players this ! nat playerIndex;
                   this' = this\<lparr>remainingBudget := fadd (remainingBudget this) (purchasePrice player),
                        totalValue := fsub (totalValue this) (purchasePrice player),
                        players := splice1 (nat playerIndex) (players this)\<rparr>
               in if playersValidator (players this') \<and> budgetValidator this'
                  then (None, this') else (Some ValidationFailed, this')))"

text \<open>The body of the \<^verbatim>\<open>forEach\<close> callback of \<^verbatim>\<open>setCaptain\<close>, on one selection.\<close>

definition captainStep :: "objectId \<Rightarrow> IPlayerSelection \<Rightarrow> IPlayerSelection" where
  "captainStep pid p =
     (let p1 = p\<lparr>isCaptain := (IPlayerSelection.playerId p = pid)\<rparr>
      in if isCaptain p1 then p1\<lparr>isViceCaptain := False\<rparr> else p1)"

definition setCaptain :: "IFantasyTeam \<Rightarrow> objectId \<Rightarrow> squadError option \<times> IFantasyTeam" where
  "setCaptain this pid = (None, this\<lparr>players := map (captainStep pid) (players this)\<rparr>)"

definition viceCaptainStep :: "objectId \<Rightarrow> IPlayerSelection \<Rightarrow> IPlayerSelection" where
  "viceCaptainStep pid p =
     (let p1 = p\<lparr>isViceCaptain := (IPlayerSelection.playerId p = pid)\<rparr>
      in if isViceCaptain p1 then p1\<lparr>isCaptain := False\<rparr> else p1)"

definition setViceCaptain :: "IFantasyTeam \<Rightarrow> objectId \<Rightarrow> squadError option \<times> IFantasyTeam" where
  "setViceCaptain this pid = (None, this\<lparr>players := map (viceCaptainStep pid) (players this)\<rparr>)"

text \<open>A caller's sequence of calls: each call acts on the document the previous one left,
  whether it failed or not.\<close>

datatype squadCall =
    AddPlayer string rat bool date
  | RemovePlayer string
  | SetCaptain string
  | SetViceCaptain string

fun perform :: "IFantasyTeam \<Rightarrow> squadCall \<Rightarrow> squadError option \<times> IFantasyTeam" where
  "perform t (AddPlayer pid price starting now) = addPlayer t pid price starting now"
| "perform t (RemovePlayer pid) = removePlayer t pid"
| "perform t (SetCaptain pid) = setCaptain t pid"
| "perform t (SetViceCaptain pid) = setViceCaptain t pid"

fun run :: "IFantasyTeam \<Rightarrow> squadCall list \<Rightarrow> IFantasyTeam" where
  "run t [] = t"
| "run t (c # cs) = run (snd (perform t c)) cs"

text \<open>The failures of the calls of a sequence, in order.\<close>

fun outcomes :: "IFantasyTeam \<Rightarrow> squadCall list \<Rightarrow> squadError option list" where
  "outcomes t [] = []"
| "outcomes t (c # cs) = fst (perform t c) # outcomes (snd (perform t c)) cs"





text \<open>An id string is canonical when the constructor gives it back: 24 hexadecimal digits
  with no upper-case letter. A call is canonical unless it is an \<open>addPlayer\<close> with a valid id
  that is not.\<close>

fun canonicalCall :: "squadCall \<Rightarrow> bool" where
  "canonicalCall (AddPlayer pid price starting now) = (ObjectId pid = None \<or> ObjectId pid = Some pid)"
| "canonicalCall _ = True"

text \<open>Concrete ids, prices and squads for the evaluations below. \<open>tenth\<close> is the number
  that the literal \<^verbatim>\<open>0.1\<close> denotes.\<close>

definition idA :: string where "idA = ''507f1f77bcf86cd79943901a''"
definition idAupper :: string where "idAupper = ''507F1F77BCF86CD79943901A''"
definition idB :: string where "idB = ''507f1f77bcf86cd79943901b''"
definition idC :: string where "idC = ''507f1f77bcf86cd79943901c''"
definition idZ :: string where "idZ = ''507f1f77bcf86cd7994390ff''"

definition tenth :: rat where
  "tenth = 3602879701896397 / 36028797018963968"

definition blankTeam :: IFantasyTeam where
  "blankTeam = \<lparr>name = ''Test Team'', userId = ''507f1f77bcf86cd799439101'',
     seasonId = ''507f1f77bcf86cd799439201'', players = [],
     budget = 100, remainingBudget = 100, totalValue = 0, totalPoints = 0,
     gameweekPoints = 0, rank = 0, freeTransfers = 1, usedTransfers = 0, transferCost = 0,
     status = ACTIVE, isPublic = False\<rparr>"

definition selectionOf :: "objectId \<Rightarrow> rat \<Rightarrow> IPlayerSelection" where
  "selectionOf pid price = \<lparr>IPlayerSelection.playerId = pid, purchasePrice = price,
     currentValue = None, isCaptain = False, isViceCaptain = False, isStarting = True,
     addedAt = 0\<rparr>"

definition fifteenIds :: "objectId list" where
  "fifteenIds =
     [''507f1f77bcf86cd799439001'', ''507f1f77bcf86cd799439002'', ''507f1f77bcf86cd799439003'',
      ''507f1f77bcf86cd799439004'', ''507f1f77bcf86cd799439005'', ''507f1f77bcf86cd799439006'',
      ''507f1f77bcf86cd799439007'', ''507f1f77bcf86cd799439008'', ''507f1f77bcf86cd799439009'',
      ''507f1f77bcf86cd799439010'', ''507f1f77bcf86cd799439011'', ''507f1f77bcf86cd799439012'',
      ''507f1f77bcf86cd799439013'', ''507f1f77bcf86cd799439014'', ''507f1f77bcf86cd799439015'']"

definition fullTeam :: IFantasyTeam where
  "fullTeam = blankTeam\<lparr>players := map (\<lambda>i. selectionOf i 5) fifteenIds,
                         remainingBudget := 25, totalValue := 75\<rparr>"

definition soloTeam :: IFantasyTeam where
  "soloTeam = blankTeam\<lparr>players := [selectionOf idA 98],
                         remainingBudget := 2, totalValue := 98\<rparr>"

text \<open>A stored squad that lists the same player twice; the schema has no validator
  against it.\<close>

definition twinTeam :: IFantasyTeam where
  "twinTeam = blankTeam\<lparr>players := [selectionOf idA 5, selectionOf idA 5],
                         remainingBudget := 90, totalValue := 10\<rparr>"

text \<open>A sequence of calls that succeeds and fails in turn.\<close>

definition sampleCalls :: "squadCall list" where
  "sampleCalls = [AddPlayer idA 10 True 1, AddPlayer idB 95 True 2, AddPlayer idA 5 True 3,
                  AddPlayer idC (17 / 2) False 4, SetCaptain idA, SetViceCaptain idA,
                  SetCaptain idC, RemovePlayer idZ, RemovePlayer idA, SetViceCaptain idC]"


definition upperCalls :: "squadCall list" where
  "upperCalls = [AddPlayer idAupper 5 True 1, AddPlayer idAupper 5 True 2, SetCaptain idA]"

text \<open>The invariant of the squads that the four methods build from canonical ids: no
  player twice, at most one captain, at most one vice-captain, nobody both.\<close>

definition squadInv :: "IPlayerSelection list \<Rightarrow> bool" where
  "squadInv ps = (distinct (map IPlayerSelection.playerId ps)
     \<and> length (filter isCaptain ps) \<le> 1
     \<and> length (filter isViceCaptain ps) \<le> 1
     \<and> (\<forall>s \<in> set ps. \<not> (isCaptain s \<and> isViceCaptain s)))"

section \<open>Season: the status state machine\<close>

datatype SeasonStatus = UPCOMING | ACTIVE | COMPLETED | CANCELLED

record ISeason =
  sportmonksId :: int
  name :: string
  leagueId :: objectId
  startDate :: date
  endDate :: date
  currentGameweek :: int
  totalGameweeks :: int
  status :: SeasonStatus
  isFantasyActive :: bool
  transferDeadline :: "date option"
  createdAt :: date
  updatedAt :: date

text \<open>The \<^verbatim>\<open>pre('save')\<close> hook of the schema; \<open>now\<close> is its \<^verbatim>\<open>new Date()\<close>.\<close>

definition preSave :: "date \<Rightarrow> ISeason \<Rightarrow> ISeason" where
  "preSave now this =
     (if ISeason.status this = UPCOMING \<and> startDate this \<le> now \<and> endDate this \<ge> now
        then this\<lparr>ISeason.status := SeasonStatus.ACTIVE\<rparr>
      else if ISeason.status this = SeasonStatus.ACTIVE \<and> endDate this < now
        then this\<lparr>ISeason.status := SeasonStatus.COMPLETED, isFantasyActive := False\<rparr>
      else this)"

datatype seasonError = NotUpcoming | NotActive

fun seasonMessage :: "seasonError \<Rightarrow> string" where
  "seasonMessage NotUpcoming = ''Can only activate upcoming seasons''"
| "seasonMessage NotActive = ''Can only complete active seasons''"

text \<open>The two explicit transitions. Each ends in \<^verbatim>\<open>this.save()\<close>, which runs the hook
  above on the document at the time \<open>now\<close> of the save.\<close>

definition activateSeason :: "ISeason \<Rightarrow> date \<Rightarrow> seasonError option \<times> ISeason" where
  "activateSeason this now =
     (if ISeason.status this = UPCOMING
        then (None, preSave now (this\<lparr>ISeason.status := SeasonStatus.ACTIVE, isFantasyActive := True\<rparr>))
      else (Some NotUpcoming, this))"

definition completeSeason :: "ISeason \<Rightarrow> date \<Rightarrow> seasonError option \<times> ISeason" where
  "completeSeason this now =
     (if ISeason.status this = SeasonStatus.ACTIVE
        then (None, preSave now (this\<lparr>ISeason.status := SeasonStatus.COMPLETED, isFantasyActive := False\<rparr>))
      else (Some NotActive, this))"

definition sampleSeason :: ISeason where
  "sampleSeason = \<lparr>ISeason.sportmonksId = 7, name = ''2025/26'', leagueId = ''l1'',
     startDate = 1000, endDate = 2000, currentGameweek = 1, totalGameweeks = 38,
     status = UPCOMING, isFantasyActive = False, transferDeadline = None,
     createdAt = 0, updatedAt = 0\<rparr>"

section \<open>Match: score and result\<close>

datatype MatchStatus = SCHEDULED | LIVE | HALFTIME | FINISHED | POSTPONED | CANCELLED | SUSPENDED

datatype MatchResult = HOME_WIN | AWAY_WIN | DRAW

record ITeamScore =
  teamId :: objectId
  goals :: int
  halftimeGoals :: "int option"
  shots :: "int option"
  shotsOnTarget :: "int option"
  corners :: "int option"
  fouls :: "int option"
  yellowCards :: "int option"
  redCards :: "int option"
  possession :: "rat option"

record IMatch =
  sportmonksId :: int
  seasonId :: objectId
  leagueId :: objectId
  gameweek :: int
  kickoffTime :: date
  homeTeamId :: objectId
  awayTeamId :: objectId
  homeTeamScore :: "ITeamScore option"
  awayTeamScore :: "ITeamScore option"
  status :: MatchStatus
  result :: "MatchResult option"
  currentMinute :: "int option"
  venue :: "string option"
  referee :: "string option"
  attendance :: "int option"
  isFantasyRelevant :: bool
  lastUpdated :: "date option"

text \<open>The object literal \<^verbatim>\<open>{ teamId, goals }\<close> as the embedded score the schema makes of
  it: the two card counts take their schema default 0, the other statistics stay unset.\<close>

definition newTeamScore :: "objectId \<Rightarrow> int \<Rightarrow> ITeamScore" where
  "newTeamScore tid g = \<lparr>ITeamScore.teamId = tid, goals = g, halftimeGoals = None,
     shots = None, shotsOnTarget = None, corners = None, fouls = None,
     yellowCards = Some 0, redCards = Some 0, possession = None\<rparr>"

definition updateScore :: "IMatch \<Rightarrow> int \<Rightarrow> int \<Rightarrow> date \<Rightarrow> IMatch" where
  "updateScore this homeGoals awayGoals now =
     (let m1 = (case homeTeamScore this of
                  None \<Rightarrow> this\<lparr>homeTeamScore := Some (newTeamScore (homeTeamId this) homeGoals)\<rparr>
                | Some sc \<Rightarrow> this\<lparr>homeTeamScore := Some (sc\<lparr>ITeamScore.goals := homeGoals\<rparr>)\<rparr>);
          m2 = (case awayTeamScore m1 of
                  None \<Rightarrow> m1\<lparr>awayTeamScore := Some (newTeamScore (awayTeamId m1) awayGoals)\<rparr>
                | Some sc \<Rightarrow> m1\<lparr>awayTeamScore := Some (sc\<lparr>ITeamScore.goals := awayGoals\<rparr>)\<rparr>);
          m3 = (if homeGoals > awayGoals then m2\<lparr>result := Some HOME_WIN\<rparr>
                else if awayGoals > homeGoals then m2\<lparr>result := Some AWAY_WIN\<rparr>
                else m2\<lparr>result := Some DRAW\<rparr>)
      in m3\<lparr>IMatch.lastUpdated := Some now\<rparr>)"

datatype matchError = NotScheduledStart | NotLive | NotScheduledPostpone

fun matchMessage :: "matchError \<Rightarrow> string" where
  "matchMessage NotScheduledStart = ''Can only start scheduled matches''"
| "matchMessage NotLive = ''Can only finish live matches''"
| "matchMessage NotScheduledPostpone = ''Can only postpone scheduled matches''"

definition startMatch :: "IMatch \<Rightarrow> date \<Rightarrow> matchError option \<times> IMatch" where
  "startMatch this now =
     (if IMatch.status this = SCHEDULED
        then (None, this\<lparr>IMatch.status := LIVE, currentMinute := Some 0,
                         IMatch.lastUpdated := Some now\<rparr>)
      else (Some NotScheduledStart, this))"

definition finishMatch :: "IMatch \<Rightarrow> date \<Rightarrow> matchError option \<times> IMatch" where
  "finishMatch this now =
     (if IMatch.status this \<in> set [LIVE, HALFTIME]
        then (None, this\<lparr>IMatch.status := FINISHED, currentMinute := Some 90,
                         IMatch.lastUpdated := Some now\<rparr>)
      else (Some NotLive, this))"

definition postponeMatch :: "IMatch \<Rightarrow> date \<Rightarrow> matchError option \<times> IMatch" where
  "postponeMatch this now =
     (if IMatch.status this = SCHEDULED
        then (None, this\<lparr>IMatch.status := POSTPONED, IMatch.lastUpdated := Some now\<rparr>)
      else (Some NotScheduledPostpone, this))"

definition scheduledMatch :: IMatch where
  "scheduledMatch = \<lparr>IMatch.sportmonksId = 1, seasonId = ''s1'', leagueId = ''l1'', gameweek = 1,
     kickoffTime = 5000, homeTeamId = ''h'', awayTeamId = ''w'', homeTeamScore = None,
     awayTeamScore = None, status = SCHEDULED, result = None, currentMinute = None,
     venue = None, referee = None, attendance = None, isFantasyRelevant = True,
     lastUpdated = None\<rparr>"

section \<open>Team: soft delete and the default query filter\<close>

record ITeam =
  docId :: objectId
  sportmonksId :: int
  name :: string
  shortCode :: "string option"
  logoUrl :: "string option"
  foundedYear :: "int option"
  country :: "string option"
  city :: "string option"
  venue :: "string option"
  leagueId :: "objectId option"
  isActive :: bool
  deletedAt :: "date option"
  createdAt :: date
  updatedAt :: date

text \<open>
  The collection is the list of stored documents, and \<open>docId\<close> is a document's
  \<^verbatim>\<open>_id\<close>. A filter object gives each key it constrains a condition; the conditions
  the schema's own queries put on \<^verbatim>\<open>deletedAt\<close> are \<^verbatim>\<open>null\<close>,
  \<^verbatim>\<open>{ $ne: null }\<close> and a date.
\<close>

datatype deletedAtCondition = EqNull | NeNull | EqDate date

record teamFilter =
  onId :: "objectId option"
  onLeagueId :: "objectId option"
  onCountry :: "string option"
  onIsActive :: "bool option"
  onDeletedAt :: "deletedAtCondition option"

definition noFilter :: teamFilter where
  "noFilter = \<lparr>onId = None, onLeagueId = None, onCountry = None, onIsActive = None,
               onDeletedAt = None\<rparr>"

text \<open>JavaScript truthiness of \<^verbatim>\<open>query.deletedAt\<close>: an absent key and \<^verbatim>\<open>null\<close> are
  falsy, an operator object and a date are truthy.\<close>

fun truthy :: "deletedAtCondition option \<Rightarrow> bool" where
  "truthy None = False"
| "truthy (Some EqNull) = False"
| "truthy (Some NeNull) = True"
| "truthy (Some (EqDate d)) = True"

fun holds :: "deletedAtCondition \<Rightarrow> date option \<Rightarrow> bool" where
  "holds EqNull v = (v = None)"
| "holds NeNull v = (v \<noteq> None)"
| "holds (EqDate d) v = (v = Some d)"

definition matches :: "teamFilter \<Rightarrow> ITeam \<Rightarrow> bool" where
  "matches q d =
     ((case onId q of None \<Rightarrow> True | Some i \<Rightarrow> docId d = i)
    \<and> (case onLeagueId q of None \<Rightarrow> True | Some l \<Rightarrow> ITeam.leagueId d = Some l)
    \<and> (case onCountry q of None \<Rightarrow> True | Some c \<Rightarrow> country d = Some c)
    \<and> (case onIsActive q of None \<Rightarrow> True | Some b \<Rightarrow> ITeam.isActive d = b)
    \<and> (case onDeletedAt q of None \<Rightarrow> True | Some c \<Rightarrow> holds c (deletedAt d)))"

text \<open>The \<^verbatim>\<open>pre(/^find/)\<close> hook, as a function of the filter.\<close>

definition preFind :: "teamFilter \<Rightarrow> teamFilter" where
  "preFind query =
     (if \<not> truthy (onDeletedAt query) then query\<lparr>onDeletedAt := Some EqNull\<rparr> else query)"

definition findTeams :: "ITeam list \<Rightarrow> teamFilter \<Rightarrow> ITeam list" where
  "findTeams db q = filter (matches (preFind q)) db"

definition findOne :: "ITeam list \<Rightarrow> teamFilter \<Rightarrow> ITeam option" where
  "findOne db q = find (matches (preFind q)) db"

definition findById :: "ITeam list \<Rightarrow> objectId \<Rightarrow> ITeam option" where
  "findById db i = findOne db (noFilter\<lparr>onId := Some i\<rparr>)"

definition findDeleted :: "ITeam list \<Rightarrow> ITeam list" where
  "findDeleted db = findTeams db (noFilter\<lparr>onDeletedAt := Some NeNull\<rparr>)"

definition findInactive :: "ITeam list \<Rightarrow> ITeam list" where
  "findInactive db = findTeams db (noFilter\<lparr>onIsActive := Some False, onDeletedAt := Some EqNull\<rparr>)"

text \<open>\<^verbatim>\<open>save()\<close> writes the document over the stored one with its \<^verbatim>\<open>_id\<close> (or inserts
  it); \<^verbatim>\<open>deleteOne()\<close> removes it.\<close>

definition save :: "ITeam list \<Rightarrow> ITeam \<Rightarrow> ITeam list" where
  "save db doc =
     (if docId doc \<in> set (map docId db)
        then map (\<lambda>d. if docId d = docId doc then doc else d) db
      else db @ [doc])"

definition deleteOne :: "ITeam list \<Rightarrow> ITeam \<Rightarrow> ITeam list" where
  "deleteOne db doc = filter (\<lambda>d. docId d \<noteq> docId doc) db"

text \<open>\<^verbatim>\<open>delete(options)\<close>: \<open>hard\<close> is \<^verbatim>\<open>options.hard\<close>, unset in \<^verbatim>\<open>delete()\<close>.
  The result is the collection and the document after the call.\<close>

definition delete :: "ITeam list \<Rightarrow> ITeam \<Rightarrow> bool option \<Rightarrow> date \<Rightarrow> ITeam list \<times> ITeam" where
  "delete db this hard now =
     (if hard = Some True then (deleteOne db this, this)
      else (let this' = this\<lparr>deletedAt := Some now, ITeam.isActive := False\<rparr>
            in (save db this', this')))"

definition activate :: "ITeam list \<Rightarrow> ITeam \<Rightarrow> ITeam list \<times> ITeam" where
  "activate db this =
     (let this' = this\<lparr>ITeam.isActive := True, deletedAt := None\<rparr> in (save db this', this'))"

definition deactivate :: "ITeam list \<Rightarrow> ITeam \<Rightarrow> ITeam list \<times> ITeam" where
  "deactivate db this =
     (let this' = this\<lparr>ITeam.isActive := False\<rparr> in (save db this', this'))"

definition sampleTeam :: "objectId \<Rightarrow> ITeam" where
  "sampleTeam i = \<lparr>docId = i, sportmonksId = 1, name = ''Team'', shortCode = None,
     logoUrl = None, foundedYear = None, country = None, city = None, venue = None,
     leagueId = None, isActive = True, deletedAt = None, createdAt = 0, updatedAt = 0\<rparr>"

section \<open>The fantasy points calculator: results\<close>

text \<open>
  Claim C1. For every performance snapshot, \<open>updateFantasyPoints\<close> stores
  \<open>max(0, appearances*1 + goals*4 + assists*3 + cleanSheets*4 + saves*0.5 + penaltiesSaved*5
  - penaltiesMissed*2 - yellowCards*1 - redCards*3 - ownGoals*2 + bonus)\<close>, the bonus being
  2 from 60 minutes on, 1 from 1 minute on and 0 otherwise; the result is never negative;
  running the calculator again on the document it returned gives the same derived fields;
  \<open>averagePoints\<close> and \<open>pointsPerMinute\<close> are the result divided by the appearances
  and by the minutes when these are positive, and 0 otherwise; and one more goal is worth
  4 raw points for any player, which is the forward's value of the constant table
  and none of its three other position values.
\<close>

theorem updateFantasyPoints_formula:
  "fantasyPoints (fantasy (updateFantasyPoints s)) =
     max 0 (of_int (appearances (performance s)) * 1
            + of_int (IPerformanceStats.goals (performance s)) * 4
            + of_int (assists (performance s)) * 3
            + of_int (cleanSheets (performance s)) * 4
            + of_int (saves (performance s)) * (1 / 2)
            + of_int (penaltiesSaved (performance s)) * 5
            - of_int (penaltiesMissed (performance s)) * 2
            - of_int (IPerformanceStats.yellowCards (performance s)) * 1
            - of_int (IPerformanceStats.redCards (performance s)) * 3
            - of_int (ownGoals (performance s)) * 2
            + (if minutesPlayed (performance s) \<ge> 60 then 2
               else if minutesPlayed (performance s) \<ge> 1 then 1 else 0))
 \<and> fantasyPoints (fantasy (updateFantasyPoints s)) \<ge> 0
 \<and> fantasy (updateFantasyPoints (updateFantasyPoints s)) = fantasy (updateFantasyPoints s)
 \<and> averagePoints (fantasy (updateFantasyPoints s)) =
       (if appearances (performance s) > 0
        then fantasyPoints (fantasy (updateFantasyPoints s)) / of_int (appearances (performance s))
        else 0)
 \<and> pointsPerMinute (fantasy (updateFantasyPoints s)) =
       (if minutesPlayed (performance s) > 0
        then fantasyPoints (fantasy (updateFantasyPoints s)) / of_int (minutesPlayed (performance s))
        else 0)
 \<and> statPoints ((performance s)\<lparr>IPerformanceStats.goals := IPerformanceStats.goals (performance s) + 1\<rparr>)
       = statPoints (performance s) + 4
 \<and> GOAL_FORWARD = 4 \<and> GOAL_GOALKEEPER \<noteq> 4 \<and> GOAL_DEFENDER \<noteq> 4 \<and> GOAL_MIDFIELDER \<noteq> 4"
  by (simp add: updateFantasyPoints_def Let_def statPoints_def minutesBonus_def
      GOAL_FORWARD_def GOAL_GOALKEEPER_def GOAL_DEFENDER_def GOAL_MIDFIELDER_def algebra_simps)

text \<open>The calculator on two snapshots: a goalkeeper's three matches, worth 23.5 points, and
  a snapshot whose penalties outweigh its credits, floored at 0.\<close>

theorem updateFantasyPoints_formula_witness:
  "fantasy (updateFantasyPoints (samplePlayerStats sampleStats)) =
     sampleFantasy\<lparr>fantasyPoints := 47 / 2, averagePoints := 47 / 6, pointsPerMinute := 47 / 540\<rparr>
 \<and> fantasy (updateFantasyPoints (samplePlayerStats
       (sampleStats\<lparr>IPerformanceStats.redCards := 9, appearances := 0, minutesPlayed := 0\<rparr>))) =
     sampleFantasy\<lparr>fantasyPoints := 0, averagePoints := 0, pointsPerMinute := 0\<rparr>"
  using updateFantasyPoints_formula [of "samplePlayerStats sampleStats", THEN conjunct1]
    updateFantasyPoints_formula [of "samplePlayerStats
       (sampleStats\<lparr>IPerformanceStats.redCards := 9, appearances := 0, minutesPlayed := 0\<rparr>)",
       THEN conjunct1]
  by (simp add: samplePlayerStats_def sampleStats_def sampleFantasy_def updateFantasyPoints_def
      statPoints_def minutesBonus_def Let_def)

section \<open>Binary64 arithmetic: results\<close>

subsection \<open>Evaluation on numerals\<close>

lemma floor_rat_numeral: "\<lfloor>numeral a / numeral b :: rat\<rfloor> = numeral a div numeral b"
  using floor_divide_of_int_eq [of "numeral a" "numeral b", where ?'a = rat] by simp

lemma floor_rat_neg_numeral:
  "\<lfloor>- (numeral a / numeral b) :: rat\<rfloor> = - numeral a div numeral b"
  using floor_divide_of_int_eq [of "- numeral a" "numeral b", where ?'a = rat] by simp

lemma ceiling_rat_numeral:
  "\<lceil>numeral a / numeral b :: rat\<rceil> = - (- numeral a div numeral b)"
  using floor_rat_neg_numeral [of a b] by (simp add: ceiling_def)

lemmas binary64_eval = round64_def floorLog2_def pow2_def roundHalfEven_def bitLength.simps
  Let_def fadd_def fsub_def floor_rat_numeral floor_rat_neg_numeral ceiling_rat_numeral

lemma pow2_pos: "0 < pow2 e"
  by (simp add: pow2_def)

lemma roundHalfEven_nonneg: "0 \<le> m \<Longrightarrow> 0 \<le> roundHalfEven m"
  by (simp add: roundHalfEven_def Let_def)

lemma round64_nonneg: "0 \<le> x \<Longrightarrow> 0 \<le> round64 x"
proof -
  assume x: "0 \<le> x"
  have "0 \<le> of_int (roundHalfEven (x / pow2 e)) * pow2 e" for e
  proof -
    have "0 \<le> x / pow2 e" using x pow2_pos [of e] by simp
    then have "0 \<le> roundHalfEven (x / pow2 e)" by (rule roundHalfEven_nonneg)
    then show ?thesis using pow2_pos [of e] by simp
  qed
  then show ?thesis by (simp add: round64_def Let_def)
qed

subsection \<open>The rounding is the binary64 rounding\<close>

lemma bitLength_upper: "n < 2 ^ bitLength n"
proof (induction n rule: bitLength.induct)
  case (1 n)
  show ?case
  proof (cases "n = 0")
    case True
    then show ?thesis by (simp add: bitLength.simps)
  next
    case False
    with 1 have ih: "n div 2 < 2 ^ bitLength (n div 2)" by simp
    have "n < 2 * (n div 2 + 1)" by simp
    also have "\<dots> \<le> 2 * 2 ^ bitLength (n div 2)" using ih by simp
    finally show ?thesis using False by (simp add: bitLength.simps [of n])
  qed
qed

lemma bitLength_lower: "0 < n \<Longrightarrow> 2 ^ bitLength n \<le> 2 * n"
proof (induction n rule: bitLength.induct)
  case (1 n)
  from "1.prems" have nz: "n \<noteq> 0" by simp
  show ?case
  proof (cases "n div 2 = 0")
    case True
    with nz have "n = 1" by (metis One_nat_def div_less_iff_less_mult less_2_cases_iff mult_2 nat_1_add_1 not_less_eq zero_less_numeral div_eq_0_iff neq0_conv)
    then show ?thesis by (simp add: bitLength.simps)
  next
    case False
    with 1 nz have ih: "2 ^ bitLength (n div 2) \<le> 2 * (n div 2)" by simp
    have "2 * (n div 2) \<le> n" by simp
    with ih have "2 * 2 ^ bitLength (n div 2) \<le> 2 * n" by simp
    then show ?thesis using nz by (simp add: bitLength.simps [of n])
  qed
qed

lemma bitLength_pos: "0 < n \<Longrightarrow> 0 < bitLength n"
  by (simp add: bitLength.simps [of n])

lemma pow2_nat: "pow2 (int k) = 2 ^ k"
  by (simp add: pow2_def)

lemma pow2_neg_nat: "pow2 (- int k) = 1 / 2 ^ k"
proof (cases "k = 0")
  case True
  then show ?thesis by (simp add: pow2_def)
next
  case False
  then have "\<not> 0 \<le> - int k" by simp
  moreover have "nat (- (- int k)) = k" by simp
  ultimately show ?thesis by (simp only: pow2_def if_False)
qed

lemma pow2_Suc: "pow2 (e + 1) = 2 * pow2 e"
proof (cases "e \<ge> 0")
  case True
  then have "nat (e + 1) = Suc (nat e)" by simp
  with True show ?thesis by (simp add: pow2_def)
next
  case False
  then have "nat (- e) = Suc (nat (- (e + 1)))" by simp
  with False show ?thesis by (cases "e + 1 \<ge> 0") (simp_all add: pow2_def)
qed

text \<open>\<open>floorLog2\<close> is the binary exponent.\<close>

lemma floorLog2_bounds:
  assumes "0 < x"
  shows "pow2 (floorLog2 x) \<le> x \<and> x < pow2 (floorLog2 x + 1)"
proof (cases "1 \<le> x")
  case True
  define N where "N = nat \<lfloor>x\<rfloor>"
  from True have fl: "1 \<le> \<lfloor>x\<rfloor>" by simp
  then have Npos: "0 < N" and N: "int N = \<lfloor>x\<rfloor>" by (simp_all add: N_def)
  define b where "b = bitLength N"
  from bitLength_pos [OF Npos] obtain c where c: "b = Suc c" by (auto simp: b_def gr0_conv_Suc)
  have k: "floorLog2 x = int c" using True by (simp add: floorLog2_def N_def [symmetric] b_def [symmetric] c)
  from bitLength_lower [OF Npos] have "2 ^ c \<le> N" by (simp add: b_def [symmetric] c)
  then have "(2::rat) ^ c \<le> of_nat N" by (metis of_nat_le_iff of_nat_numeral of_nat_power)
  also have "(of_nat N :: rat) = of_int \<lfloor>x\<rfloor>" using N by (metis of_int_of_nat_eq)
  also have "\<dots> \<le> x" by simp
  finally have lo: "pow2 (floorLog2 x) \<le> x" by (simp add: k pow2_nat)
  from bitLength_upper [of N] have "N + 1 \<le> 2 ^ b" by (simp add: b_def)
  then have "(of_nat (N + 1) :: rat) \<le> 2 ^ b" by (metis of_nat_le_iff of_nat_numeral of_nat_power)
  moreover have "x < of_int \<lfloor>x\<rfloor> + 1" by linarith
  moreover have "(of_nat (N + 1) :: rat) = of_int \<lfloor>x\<rfloor> + 1" using N by (metis of_int_of_nat_eq of_nat_Suc Suc_eq_plus1 add.commute)
  ultimately have "x < 2 ^ b" by linarith
  moreover have "pow2 (floorLog2 x + 1) = 2 ^ b"
  proof -
    have "floorLog2 x + 1 = int b" by (simp add: k c)
    then show ?thesis by (simp only: pow2_nat)
  qed
  ultimately show ?thesis using lo by simp
next
  case False
  define y where "y = 1 / x"
  from False assms have y1: "1 < y" by (simp add: y_def)
  define M where "M = nat (\<lceil>y\<rceil> - 1)"
  from y1 have "2 \<le> \<lceil>y\<rceil>" by linarith
  then have Mpos: "0 < M" and M: "int M = \<lceil>y\<rceil> - 1" by (simp_all add: M_def)
  define b where "b = bitLength M"
  from bitLength_pos [OF Mpos] obtain c where c: "b = Suc c" by (auto simp: b_def gr0_conv_Suc)
  have k: "floorLog2 x = - int b"
    using False by (simp add: floorLog2_def y_def [symmetric] M_def [symmetric] b_def)
  have Mr: "(of_nat M :: rat) = of_int \<lceil>y\<rceil> - 1"
    using M by (metis of_int_of_nat_eq of_int_diff of_int_1)
  from bitLength_upper [of M] have "M + 1 \<le> 2 ^ b" by (simp add: b_def)
  then have "(of_nat (M + 1) :: rat) \<le> 2 ^ b" by (metis of_nat_le_iff of_nat_numeral of_nat_power)
  then have "of_int \<lceil>y\<rceil> \<le> (2::rat) ^ b" using Mr by simp
  moreover have "y \<le> of_int \<lceil>y\<rceil>" by simp
  ultimately have yb: "y \<le> 2 ^ b" by linarith
  have lo: "pow2 (floorLog2 x) \<le> x"
  proof -
    from yb have "1 / x \<le> 2 ^ b" by (simp add: y_def)
    with assms have "1 \<le> 2 ^ b * x" by (simp add: field_simps)
    then have "1 / 2 ^ b \<le> x" by (simp add: field_simps)
    then show ?thesis by (simp add: k pow2_neg_nat)
  qed
  from bitLength_lower [OF Mpos] have "2 ^ c \<le> M" by (simp add: b_def [symmetric] c)
  then have "(2::rat) ^ c \<le> of_nat M" by (metis of_nat_le_iff of_nat_numeral of_nat_power)
  moreover have "of_int \<lceil>y\<rceil> - 1 < y" by linarith
  ultimately have "2 ^ c < y" using Mr by linarith
  then have "2 ^ c < 1 / x" by (simp add: y_def)
  with assms have "x * 2 ^ c < 1" by (simp add: field_simps)
  then have "x < 1 / 2 ^ c" by (simp add: field_simps)
  moreover have "pow2 (floorLog2 x + 1) = 1 / 2 ^ c"
  proof -
    have "floorLog2 x + 1 = - int c" by (simp add: k c)
    then show ?thesis by (simp only: pow2_neg_nat)
  qed
  ultimately show ?thesis using lo by simp
qed

lemma pow2_power_int: "pow2 e = power_int 2 e"
  by (simp add: pow2_def power_int_def inverse_eq_divide power_one_over)

lemma pow2_add: "pow2 (a + b) = pow2 a * pow2 b"
  by (simp add: pow2_power_int power_int_add)

lemma pow2_mono: "a \<le> b \<Longrightarrow> pow2 a \<le> pow2 b"
  by (simp add: pow2_power_int power_int_increasing)

lemma roundHalfEven_of_int: "roundHalfEven (of_int k) = k"
  by (simp add: roundHalfEven_def Let_def)

lemma roundHalfEven_error: "\<bar>m - of_int (roundHalfEven m)\<bar> \<le> 1 / 2"
proof -
  define f where "f = \<lfloor>m\<rfloor>"
  define r where "r = m - of_int f"
  have r0: "0 \<le> r" and r1: "r < 1" unfolding r_def f_def by linarith+
  have m: "m = of_int f + r" by (simp add: r_def)
  consider "r < 1 / 2" | "1 / 2 < r" | "r = 1 / 2" by linarith
  then show ?thesis
  proof cases
    case 1
    then have "roundHalfEven m = f" by (simp add: roundHalfEven_def Let_def f_def r_def)
    with 1 r0 show ?thesis by (simp add: m)
  next
    case 2
    then have "roundHalfEven m = f + 1" by (simp add: roundHalfEven_def Let_def f_def r_def)
    with 2 r1 show ?thesis by (simp add: m)
  next
    case 3
    then have "roundHalfEven m = f \<or> roundHalfEven m = f + 1"
      by (simp add: roundHalfEven_def Let_def f_def r_def)
    with 3 show ?thesis by (auto simp: m)
  qed
qed

text \<open>A rational with a significand below \<open>2 ^ 53\<close> and an exponent from -1074 on is a
  binary64 number, and rounding leaves it as it is.\<close>

lemma round64_representable:
  assumes n: "\<bar>n\<bar> < 2 ^ 53" and e': "- 1074 \<le> e'"
  shows "round64 (of_int n * pow2 e') = of_int n * pow2 e'"
proof (cases "n = 0")
  case True
  then show ?thesis by (simp add: round64_def)
next
  case False
  define x where "x = (of_int n :: rat) * pow2 e'"
  have xnz: "x \<noteq> 0" using False pow2_pos [of e'] by (simp add: x_def)
  then have xpos: "0 < \<bar>x\<bar>" by simp
  define fl where "fl = floorLog2 \<bar>x\<bar>"
  define e where "e = max (fl - 52) (- 1074)"
  from floorLog2_bounds [OF xpos] have lo: "pow2 fl \<le> \<bar>x\<bar>" by (simp add: fl_def)
  have "\<bar>x\<bar> = of_int \<bar>n\<bar> * pow2 e'"
    using pow2_pos [of e'] by (simp add: x_def abs_mult)
  also have "\<dots> < 2 ^ 53 * pow2 e'"
  proof -
    from n have "(of_int \<bar>n\<bar> :: rat) < of_int (2 ^ 53)" by (simp only: of_int_less_iff)
    then have "(of_int \<bar>n\<bar> :: rat) < 2 ^ 53" by simp
    then show ?thesis using pow2_pos [of e'] by simp
  qed
  also have "\<dots> = pow2 (53 + e')"
  proof -
    have "pow2 53 = 2 ^ 53" by (simp add: pow2_def)
    then show ?thesis by (simp only: pow2_add)
  qed
  finally have "pow2 fl < pow2 (53 + e')" using lo by simp
  then have "fl < 53 + e'" using pow2_mono [of "53 + e'" fl] by (cases "fl < 53 + e'") auto
  then have ee: "e \<le> e'" using e' by (simp add: e_def)
  define d where "d = nat (e' - e)"
  from ee have d: "e' = e + int d" by (simp add: d_def)
  have "x / pow2 e = of_int n * pow2 (int d)"
    using pow2_pos [of e] by (simp add: x_def d pow2_add)
  also have "\<dots> = of_int (n * 2 ^ d)" by (simp add: pow2_nat)
  finally have q: "x / pow2 e = of_int (n * 2 ^ d)" .
  have "round64 x = of_int (roundHalfEven (x / pow2 e)) * pow2 e"
    using xnz by (simp add: round64_def Let_def e_def fl_def)
  also have "\<dots> = of_int (n * 2 ^ d) * pow2 e"
    by (simp only: q roundHalfEven_of_int)
  also have "\<dots> = of_int n * (pow2 (int d) * pow2 e)" by (simp add: pow2_nat)
  also have "\<dots> = x" by (simp add: x_def d pow2_add mult.commute)
  finally show ?thesis by (simp add: x_def)
qed

lemma round64_whole: "\<bar>n\<bar> < 2 ^ 53 \<Longrightarrow> round64 (of_int n) = of_int n"
  using round64_representable [of n 0] by (simp add: pow2_def)

text \<open>Rounding moves a number by at most half a unit in the last place.\<close>

lemma round64_error:
  assumes "x \<noteq> 0"
  shows "\<bar>round64 x - x\<bar> \<le> pow2 (max (floorLog2 \<bar>x\<bar> - 52) (- 1074)) / 2"
proof -
  define e where "e = max (floorLog2 \<bar>x\<bar> - 52) (- 1074)"
  define m where "m = x / pow2 e"
  have x: "x = m * pow2 e" using pow2_pos [of e] by (simp add: m_def)
  have r: "round64 x = of_int (roundHalfEven m) * pow2 e"
    using assms by (simp add: round64_def Let_def e_def m_def)
  have "\<bar>round64 x - x\<bar> = \<bar>of_int (roundHalfEven m) - m\<bar> * pow2 e"
  proof -
    have "round64 x - x = (of_int (roundHalfEven m) - m) * pow2 e"
      by (simp add: r algebra_simps) (simp add: x [symmetric])
    then show ?thesis using pow2_pos [of e] by (simp add: abs_mult)
  qed
  also have "\<dots> \<le> (1 / 2) * pow2 e"
    using roundHalfEven_error [of m] pow2_pos [of e]
    by (intro mult_right_mono) (simp_all add: abs_minus_commute)
  finally show ?thesis by (simp add: e_def)
qed

text \<open>The constant \<open>tenth\<close> is the literal \<^verbatim>\<open>0.1\<close>.\<close>

lemma tenth_is_literal: "round64 (1 / 10) = tenth"
  by (simp add: tenth_def binary64_eval)

section \<open>The squad manager: results\<close>

subsection \<open>Array helpers\<close>

lemma findIndex_range:
  "findIndex P xs \<noteq> - 1 \<Longrightarrow>
     0 \<le> findIndex P xs \<and> nat (findIndex P xs) < length xs \<and> P (xs ! nat (findIndex P xs))"
proof (induction xs)
  case Nil
  then show ?case by simp
next
  case (Cons x xs)
  show ?case
  proof (cases "P x")
    case True
    then show ?thesis by simp
  next
    case False
    with Cons.prems have ne: "findIndex P xs \<noteq> - 1"
      by (auto simp: Let_def split: if_splits)
    from Cons.IH [OF ne] have ih: "0 \<le> findIndex P xs" "nat (findIndex P xs) < length xs"
      "P (xs ! nat (findIndex P xs))"
      by auto
    have eq: "findIndex P (x # xs) = findIndex P xs + 1"
      using False ne by (simp add: Let_def)
    have "nat (findIndex P xs + 1) = Suc (nat (findIndex P xs))"
      using ih(1) by simp
    then show ?thesis using ih eq by simp
  qed
qed

lemma findIndex_none: "findIndex P xs = - 1 \<longleftrightarrow> (\<forall>x \<in> set xs. \<not> P x)"
proof (induction xs)
  case Nil
  then show ?case by simp
next
  case (Cons x xs)
  have "findIndex P xs \<noteq> - 1 \<Longrightarrow> findIndex P xs + 1 \<noteq> - 1"
    using findIndex_range [of P xs] by auto
  then show ?case using Cons by (auto simp: Let_def)
qed


lemma find_none_findIndex: "findIndex P xs = - 1 \<Longrightarrow> find P xs = None"
  by (auto simp: findIndex_none find_None_iff)

lemma splice1_length: "length (splice1 i xs) \<le> length xs"
  by (simp add: splice1_def)

lemma splice1_filter: "length (filter P (splice1 i xs)) \<le> length (filter P xs)"
proof -
  have "length (filter P (take i xs)) + length (filter P (drop (Suc i) xs)) \<le>
        length (filter P (take i xs)) + length (filter P (drop i xs))"
    by (cases "i < length xs") (simp_all add: Cons_nth_drop_Suc [symmetric])
  also have "\<dots> = length (filter P (take i xs @ drop i xs))"
    by (simp del: append_take_drop_id)
  finally show ?thesis by (simp add: splice1_def)
qed

lemma splice1_set: "set (splice1 i xs) \<subseteq> set xs"
  unfolding splice1_def using set_take_subset [of i xs] set_drop_subset [of "Suc i" xs] by auto

lemma splice1_distinct: "distinct (map f xs) \<Longrightarrow> distinct (map f (splice1 i xs))"
proof -
  assume d: "distinct (map f xs)"
  have "map f xs = map f (take i xs) @ map f (drop i xs)"
    by (simp flip: map_append)
  with d have d2: "distinct (map f (take i xs) @ map f (drop i xs))" by simp
  have "set (drop (Suc i) xs) \<subseteq> set (drop i xs)"
    by (metis drop_Suc set_drop_subset tl_drop drop_drop plus_1_eq_Suc)
  moreover have "distinct (map f (drop (Suc i) xs))"
    using d by (simp add: distinct_drop flip: drop_map)
  ultimately show ?thesis using d2 unfolding splice1_def by auto
qed

lemma distinct_count_le1: "distinct xs \<Longrightarrow> count_list xs x \<le> 1"
  by (induction xs) (auto simp: count_list_0_iff)

text \<open>The definitions that evaluate a call on a concrete squad.\<close>

lemmas squad_eval = addPlayer_def removePlayer_def setCaptain_def setViceCaptain_def
  captainStep_def viceCaptainStep_def splice1_def playersValidator_def selectionValidator_def
  budgetValidator_def ObjectId_def isValidObjectId_def isHexDigit_def lowerHex_def
  blankTeam_def selectionOf_def
  idA_def idAupper_def idB_def idC_def idZ_def

subsection \<open>Budget\<close>









text \<open>Whole amounts below \<open>2 ^ 53\<close> are never rounded.\<close>

lemma unrounded_whole:
  "\<bar>a - b\<bar> < 2 ^ 53 \<Longrightarrow> fsub (of_int a) (of_int b) = of_int a - of_int b"
  "\<bar>a + b\<bar> < 2 ^ 53 \<Longrightarrow> fadd (of_int a) (of_int b) = of_int a + of_int b"
  using round64_whole [of "a - b"] round64_whole [of "a + b"]
  by (simp_all add: fsub_def fadd_def)




subsection \<open>Squad size\<close>

lemma addPlayer_length:
  "length (players (snd (addPlayer t pid price st now))) \<le> max 15 (length (players t))"
  by (simp add: addPlayer_def Let_def split: option.splits)

lemma removePlayer_length: "length (players (snd (removePlayer t pid))) \<le> length (players t)"
  by (simp add: removePlayer_def Let_def splice1_length)

lemma perform_length: "length (players (snd (perform t c))) \<le> max 15 (length (players t))"
proof (cases c)
  case (AddPlayer pid price st now)
  then show ?thesis using addPlayer_length [of t pid price st now] by simp
next
  case (RemovePlayer pid)
  then show ?thesis using removePlayer_length [of t pid] by simp
next
  case (SetCaptain pid)
  then show ?thesis by (simp add: setCaptain_def)
next
  case (SetViceCaptain pid)
  then show ?thesis by (simp add: setViceCaptain_def)
qed

lemma run_length: "length (players (run t cs)) \<le> max 15 (length (players t))"
proof (induction cs arbitrary: t)
  case Nil
  then show ?case by simp
next
  case (Cons c cs)
  have "length (players (run (snd (perform t c)) cs))
          \<le> max 15 (length (players (snd (perform t c))))"
    by (rule Cons.IH)
  also have "\<dots> \<le> max 15 (length (players t))"
    using perform_length [of t c] by simp
  finally show ?case by simp
qed

text \<open>
  Claim C3. No sequence of calls brings the selection count above 15: the count after the
  sequence is at most the larger of 15 and the count before, so a squad that passes the
  schema's validator passes it afterwards. On a squad of 15 selections \<open>addPlayer\<close> throws
  the squad-full error and leaves the document, with its 15 selections, as it was.
\<close>

theorem squad_size_bound:
  "length (players (run t cs)) \<le> max 15 (length (players t))
 \<and> (playersValidator (players t) \<longrightarrow> playersValidator (players (run t cs)))
 \<and> (length (players t) = 15 \<longrightarrow>
       addPlayer t pid price starting now = (Some SquadFull, t)
     \<and> length (players (snd (addPlayer t pid price starting now))) = 15)"
  using run_length [of t cs] by (auto simp: playersValidator_def addPlayer_def)

text \<open>A squad of 15: the 16th and the 17th attempt leave it at 15.\<close>

theorem squad_size_bound_witness:
  "playersValidator (players fullTeam) \<and> length (players fullTeam) = 15
 \<and> addPlayer fullTeam idB 1 True 0 = (Some SquadFull, fullTeam)
 \<and> length (players (run fullTeam [AddPlayer idB 1 True 0, AddPlayer idC 1 True 0])) = 15"
  using squad_size_bound
    [of fullTeam "[AddPlayer idB 1 True 0, AddPlayer idC 1 True 0]" idB 1 True 0]
  by (simp add: fullTeam_def blankTeam_def fifteenIds_def playersValidator_def addPlayer_def)

subsection \<open>The outcomes of removePlayer and addPlayer\<close>

text \<open>The index that \<open>removePlayer\<close> reads and splices at is inside the array: the method
  throws exactly when no selection has the id as passed, and otherwise removes the first
  such selection and refunds its purchase price, which the validators then accept or not.\<close>

lemma removePlayer_outcome:
  "(pid \<notin> IPlayerSelection.playerId ` set (players t) \<longrightarrow>
      removePlayer t pid = (Some PlayerNotFound, t))
 \<and> (pid \<in> IPlayerSelection.playerId ` set (players t) \<longrightarrow>
      (\<exists>i < length (players t).
          IPlayerSelection.playerId (players t ! i) = pid
        \<and> snd (removePlayer t pid) =
            t\<lparr>remainingBudget := fadd (remainingBudget t) (purchasePrice (players t ! i)),
              totalValue := fsub (totalValue t) (purchasePrice (players t ! i)),
              players := splice1 i (players t)\<rparr>
        \<and> fst (removePlayer t pid) =
            (if playersValidator (splice1 i (players t))
                \<and> 0 \<le> fadd (remainingBudget t) (purchasePrice (players t ! i))
                \<and> 0 \<le> fsub (totalValue t) (purchasePrice (players t ! i))
             then None else Some ValidationFailed)))"
proof -
  let ?P = "\<lambda>p. IPlayerSelection.playerId p = pid"
  have absent: "findIndex ?P (players t) = - 1
      \<longleftrightarrow> pid \<notin> IPlayerSelection.playerId ` set (players t)"
    by (auto simp: findIndex_none)
  have A: "pid \<notin> IPlayerSelection.playerId ` set (players t) \<longrightarrow>
      removePlayer t pid = (Some PlayerNotFound, t)"
    using absent by (simp add: removePlayer_def)
  have B: "\<exists>i < length (players t).
          IPlayerSelection.playerId (players t ! i) = pid
        \<and> snd (removePlayer t pid) =
            t\<lparr>remainingBudget := fadd (remainingBudget t) (purchasePrice (players t ! i)),
              totalValue := fsub (totalValue t) (purchasePrice (players t ! i)),
              players := splice1 i (players t)\<rparr>
        \<and> fst (removePlayer t pid) =
            (if playersValidator (splice1 i (players t))
                \<and> 0 \<le> fadd (remainingBudget t) (purchasePrice (players t ! i))
                \<and> 0 \<le> fsub (totalValue t) (purchasePrice (players t ! i))
             then None else Some ValidationFailed)"
    if "pid \<in> IPlayerSelection.playerId ` set (players t)"
  proof -
    from that absent have ne: "findIndex ?P (players t) \<noteq> - 1" by simp
    define i where "i = nat (findIndex ?P (players t))"
    from findIndex_range [OF ne]
    have "i < length (players t)" and "IPlayerSelection.playerId (players t ! i) = pid"
      by (simp_all add: i_def)
    moreover have "snd (removePlayer t pid) =
            t\<lparr>remainingBudget := fadd (remainingBudget t) (purchasePrice (players t ! i)),
              totalValue := fsub (totalValue t) (purchasePrice (players t ! i)),
              players := splice1 i (players t)\<rparr>"
      using ne by (simp add: removePlayer_def Let_def i_def)
    moreover have "fst (removePlayer t pid) =
            (if playersValidator (splice1 i (players t))
                \<and> 0 \<le> fadd (remainingBudget t) (purchasePrice (players t ! i))
                \<and> 0 \<le> fsub (totalValue t) (purchasePrice (players t ! i))
             then None else Some ValidationFailed)"
      using ne by (simp add: removePlayer_def Let_def i_def budgetValidator_def)
    ultimately show ?thesis by blast
  qed
  from A B show ?thesis by blast
qed

text \<open>The outcomes of \<open>addPlayer\<close> for a price that is not negative, on a document whose
  \<open>totalValue\<close> is not negative: the guards in their order, then the constructor of the id,
  then the assignments, which the validators accept.\<close>

lemma addPlayer_outcome:
  assumes "0 \<le> price" and "0 \<le> totalValue t"
  shows "(length (players t) \<ge> 15 \<longrightarrow> addPlayer t pid price starting now = (Some SquadFull, t))
 \<and> (length (players t) < 15 \<and> price > remainingBudget t \<longrightarrow>
       addPlayer t pid price starting now = (Some InsufficientBudget, t))
 \<and> (length (players t) < 15 \<and> price \<le> remainingBudget t
      \<and> pid \<in> IPlayerSelection.playerId ` set (players t) \<longrightarrow>
       addPlayer t pid price starting now = (Some DuplicatePlayer, t))
 \<and> (length (players t) < 15 \<and> price \<le> remainingBudget t
      \<and> pid \<notin> IPlayerSelection.playerId ` set (players t) \<and> \<not> isValidObjectId pid \<longrightarrow>
       addPlayer t pid price starting now = (Some InvalidObjectId, t))
 \<and> (length (players t) < 15 \<and> price \<le> remainingBudget t
      \<and> pid \<notin> IPlayerSelection.playerId ` set (players t) \<and> isValidObjectId pid \<longrightarrow>
       addPlayer t pid price starting now =
         (None, t\<lparr>players := players t @
                     [\<lparr>IPlayerSelection.playerId = map lowerHex pid, purchasePrice = price,
                       currentValue = None, isCaptain = False, isViceCaptain = False,
                       isStarting = starting, addedAt = now\<rparr>],
                   remainingBudget := fsub (remainingBudget t) price,
                   totalValue := fadd (totalValue t) price\<rparr>))"
proof -
  have dup: "(find (\<lambda>p. IPlayerSelection.playerId p = pid) (players t) \<noteq> None)
        = (pid \<in> IPlayerSelection.playerId ` set (players t))"
    by (auto simp: find_None_iff)
  have rb: "price \<le> remainingBudget t \<Longrightarrow> 0 \<le> fsub (remainingBudget t) price"
    unfolding fsub_def by (rule round64_nonneg) simp
  have tv: "0 \<le> fadd (totalValue t) price"
    unfolding fadd_def using assms by (intro round64_nonneg) simp
  show ?thesis
    using dup rb tv assms(1)
    by (simp add: addPlayer_def ObjectId_def Let_def playersValidator_def
        selectionValidator_def budgetValidator_def)
qed

text \<open>
  Claim C4. \<open>addPlayer\<close> is to fail with the duplicate error when the player is already
  among the selections. Its test compares the stored id, which reads in lower case, with
  the argument as passed, while the selection it appends holds the id the constructor makes
  of the argument. On the squad that holds the player \<open>idA\<close> and has 2 left, the call for
  \<open>idA\<close> at price 1 throws the duplicate error; the call for the same id written in upper
  case, which the repository's validator and the constructor accept, succeeds and appends a
  second selection for the same player.
\<close>

theorem addPlayer_duplicate_evaluation:
  "isValidObjectId idAupper
 \<and> ObjectId idAupper = Some idA
 \<and> idA \<in> IPlayerSelection.playerId ` set (players soloTeam)
 \<and> (0::rat) \<le> 1 \<and> 1 \<le> remainingBudget soloTeam \<and> length (players soloTeam) < 15
 \<and> addPlayer soloTeam idA 1 True 7 = (Some DuplicatePlayer, soloTeam)
 \<and> addPlayer soloTeam idAupper 1 True 7 =
     (None, soloTeam\<lparr>players := [selectionOf idA 98, (selectionOf idA 1)\<lparr>addedAt := 7\<rparr>],
                     remainingBudget := 1, totalValue := 99\<rparr>)
 \<and> map IPlayerSelection.playerId (players (snd (addPlayer soloTeam idAupper 1 True 7)))
      = [idA, idA]"
  by (simp add: soloTeam_def squad_eval binary64_eval)

subsection \<open>Captain and vice-captain\<close>

lemma captainStep_fields:
  "IPlayerSelection.playerId (captainStep pid p) = IPlayerSelection.playerId p"
  "isCaptain (captainStep pid p) = (IPlayerSelection.playerId p = pid)"
  "isViceCaptain (captainStep pid p) = (isViceCaptain p \<and> IPlayerSelection.playerId p \<noteq> pid)"
  by (simp_all add: captainStep_def Let_def)

lemma viceCaptainStep_fields:
  "IPlayerSelection.playerId (viceCaptainStep pid p) = IPlayerSelection.playerId p"
  "isViceCaptain (viceCaptainStep pid p) = (IPlayerSelection.playerId p = pid)"
  "isCaptain (viceCaptainStep pid p) = (isCaptain p \<and> IPlayerSelection.playerId p \<noteq> pid)"
  by (simp_all add: viceCaptainStep_def Let_def)

lemma captains_after_step:
  "length (filter isCaptain (map (captainStep pid) ps))
     = count_list (map IPlayerSelection.playerId ps) pid"
  by (induction ps) (simp_all add: captainStep_fields)

lemma vices_after_viceStep:
  "length (filter isViceCaptain (map (viceCaptainStep pid) ps))
     = count_list (map IPlayerSelection.playerId ps) pid"
  by (induction ps) (simp_all add: viceCaptainStep_fields)

lemma vices_after_step:
  "length (filter isViceCaptain (map (captainStep pid) ps)) \<le> length (filter isViceCaptain ps)"
  by (induction ps) (simp_all add: captainStep_fields)

lemma captains_after_viceStep:
  "length (filter isCaptain (map (viceCaptainStep pid) ps)) \<le> length (filter isCaptain ps)"
  by (induction ps) (simp_all add: viceCaptainStep_fields)

lemma ids_after_step:
  "map IPlayerSelection.playerId (map (captainStep pid) ps) = map IPlayerSelection.playerId ps"
  by (simp add: captainStep_fields comp_def)

lemma ids_after_viceStep:
  "map IPlayerSelection.playerId (map (viceCaptainStep pid) ps) = map IPlayerSelection.playerId ps"
  by (simp add: viceCaptainStep_fields comp_def)

text \<open>
  \<open>setCaptain\<close> does not look the player up before it rewrites the flags. On a squad that
  holds only player \<open>idA\<close>, \<open>setCaptain\<close> for a player \<open>idB\<close> returns without error and
  leaves no selection with \<open>isCaptain\<close> set; on a squad that lists \<open>idA\<close> twice,
  \<open>setCaptain\<close> for \<open>idA\<close> leaves two.
\<close>

theorem setCaptain_count_counterexample:
  "fst (setCaptain soloTeam idB) = None
 \<and> length (filter isCaptain (players (snd (setCaptain soloTeam idB)))) = 0
 \<and> length (filter isCaptain (players (snd (setCaptain soloTeam idB)))) \<noteq> 1
 \<and> length (filter isCaptain (players (snd (setCaptain twinTeam idA)))) = 2"
  by (simp add: soloTeam_def twinTeam_def blankTeam_def selectionOf_def setCaptain_def
      captainStep_def idA_def idB_def)

text \<open>
  Claim C5, amended. For every FantasyTeam and every player that has exactly one selection
  in the squad, \<open>setCaptain\<close> for that player succeeds, keeps the selections and their order,
  and leaves exactly one selection with \<open>isCaptain\<close> set: a selection has the flag exactly
  when it is the player's, and the player's selection is not vice-captain.
\<close>

theorem setCaptain_exclusive:
  assumes "count_list (map IPlayerSelection.playerId (players t)) p = 1"
  shows "fst (setCaptain t p) = None
       \<and> map IPlayerSelection.playerId (players (snd (setCaptain t p)))
           = map IPlayerSelection.playerId (players t)
       \<and> length (filter isCaptain (players (snd (setCaptain t p)))) = 1
       \<and> (\<forall>s \<in> set (players (snd (setCaptain t p))).
             isCaptain s = (IPlayerSelection.playerId s = p))
       \<and> (\<forall>s \<in> set (players (snd (setCaptain t p))).
             IPlayerSelection.playerId s = p \<longrightarrow> \<not> isViceCaptain s)"
proof -
  have ps: "players (snd (setCaptain t p)) = map (captainStep p) (players t)"
    by (simp add: setCaptain_def)
  have 0: "fst (setCaptain t p) = None"
    by (simp add: setCaptain_def)
  have 1: "length (filter isCaptain (map (captainStep p) (players t))) = 1"
    using assms by (simp only: captains_after_step)
  have 2: "\<forall>s \<in> set (map (captainStep p) (players t)).
             isCaptain s = (IPlayerSelection.playerId s = p)"
    by (auto simp: captainStep_fields)
  have 3: "\<forall>s \<in> set (map (captainStep p) (players t)).
             IPlayerSelection.playerId s = p \<longrightarrow> \<not> isViceCaptain s"
    by (auto simp: captainStep_fields)
  show ?thesis
    unfolding ps using 0 1 2 3 ids_after_step [of p "players t"] by blast
qed

text \<open>The first seven of the sample calls, run on a new team, leave \<open>idA\<close> as
  vice-captain and \<open>idC\<close> as captain.\<close>

lemma seven_calls:
  "players (run blankTeam (take 7 sampleCalls)) =
     [(selectionOf idA 10)\<lparr>isViceCaptain := True, addedAt := 1\<rparr>,
      (selectionOf idC (17 / 2))\<lparr>isCaptain := True, isStarting := False, addedAt := 4\<rparr>]"
  by (simp add: sampleCalls_def squad_eval binary64_eval)

text \<open>On that squad, making \<open>idA\<close> captain takes the vice-captaincy from \<open>idA\<close> and the
  captaincy from \<open>idC\<close>.\<close>

theorem setCaptain_exclusive_witness:
  "count_list (map IPlayerSelection.playerId (players (run blankTeam (take 7 sampleCalls)))) idA = 1
 \<and> players (snd (setCaptain (run blankTeam (take 7 sampleCalls)) idA)) =
     [(selectionOf idA 10)\<lparr>isCaptain := True, addedAt := 1\<rparr>,
      (selectionOf idC (17 / 2))\<lparr>isStarting := False, addedAt := 4\<rparr>]
 \<and> length (filter isCaptain (players (snd (setCaptain (run blankTeam (take 7 sampleCalls)) idA)))) = 1"
  using setCaptain_exclusive [of "run blankTeam (take 7 sampleCalls)" idA]
  by (simp add: seven_calls setCaptain_def captainStep_def selectionOf_def idA_def idC_def)

text \<open>The invariant holds along every sequence of calls in which \<open>addPlayer\<close> is given
  canonical ids only.\<close>

lemma squadInv_setCaptain:
  assumes "squadInv (players t)"
  shows "squadInv (players (snd (setCaptain t pid)))"
proof -
  let ?ps = "players t" and ?qs = "map (captainStep pid) (players t)"
  from assms have d: "distinct (map IPlayerSelection.playerId ?ps)"
    and v: "length (filter isViceCaptain ?ps) \<le> 1"
    by (simp_all add: squadInv_def)
  have 1: "distinct (map IPlayerSelection.playerId ?qs)"
    using d by (simp only: ids_after_step)
  have 2: "length (filter isCaptain ?qs) \<le> 1"
    using distinct_count_le1 [OF d, of pid] by (simp only: captains_after_step)
  have 3: "length (filter isViceCaptain ?qs) \<le> 1"
    using vices_after_step [of pid ?ps] v by linarith
  have 4: "\<forall>s \<in> set ?qs. \<not> (isCaptain s \<and> isViceCaptain s)"
    by (auto simp: captainStep_fields)
  show ?thesis using 1 2 3 4 by (simp add: setCaptain_def squadInv_def)
qed

lemma squadInv_setViceCaptain:
  assumes "squadInv (players t)"
  shows "squadInv (players (snd (setViceCaptain t pid)))"
proof -
  let ?ps = "players t" and ?qs = "map (viceCaptainStep pid) (players t)"
  from assms have d: "distinct (map IPlayerSelection.playerId ?ps)"
    and c: "length (filter isCaptain ?ps) \<le> 1"
    by (simp_all add: squadInv_def)
  have 1: "distinct (map IPlayerSelection.playerId ?qs)"
    using d by (simp only: ids_after_viceStep)
  have 2: "length (filter isViceCaptain ?qs) \<le> 1"
    using distinct_count_le1 [OF d, of pid] by (simp only: vices_after_viceStep)
  have 3: "length (filter isCaptain ?qs) \<le> 1"
    using captains_after_viceStep [of pid ?ps] c by linarith
  have 4: "\<forall>s \<in> set ?qs. \<not> (isCaptain s \<and> isViceCaptain s)"
    by (auto simp: viceCaptainStep_fields)
  show ?thesis using 1 2 3 4 by (simp add: setViceCaptain_def squadInv_def)
qed

lemma addPlayer_players:
  "players (snd (addPlayer t pid price st now)) = players t
   \<or> (\<exists>oid. ObjectId pid = Some oid
        \<and> (\<forall>p \<in> set (players t). IPlayerSelection.playerId p \<noteq> pid)
        \<and> players (snd (addPlayer t pid price st now)) = players t @
             [\<lparr>IPlayerSelection.playerId = oid, purchasePrice = price,
               currentValue = None, isCaptain = False, isViceCaptain = False,
               isStarting = st, addedAt = now\<rparr>])"
  by (auto simp: addPlayer_def Let_def find_None_iff split: option.splits)

lemma squadInv_addPlayer:
  assumes "squadInv (players t)" and "canonicalCall (AddPlayer pid price st now)"
  shows "squadInv (players (snd (addPlayer t pid price st now)))"
proof -
  from addPlayer_players [of t pid price st now] show ?thesis
  proof
    assume "players (snd (addPlayer t pid price st now)) = players t"
    with assms(1) show ?thesis by simp
  next
    assume "\<exists>oid. ObjectId pid = Some oid
        \<and> (\<forall>p \<in> set (players t). IPlayerSelection.playerId p \<noteq> pid)
        \<and> players (snd (addPlayer t pid price st now)) = players t @
             [\<lparr>IPlayerSelection.playerId = oid, purchasePrice = price,
               currentValue = None, isCaptain = False, isViceCaptain = False,
               isStarting = st, addedAt = now\<rparr>]"
    then obtain oid where oid: "ObjectId pid = Some oid"
      and fresh: "\<forall>p \<in> set (players t). IPlayerSelection.playerId p \<noteq> pid"
      and ps: "players (snd (addPlayer t pid price st now)) = players t @
             [\<lparr>IPlayerSelection.playerId = oid, purchasePrice = price,
               currentValue = None, isCaptain = False, isViceCaptain = False,
               isStarting = st, addedAt = now\<rparr>]"
      by blast
    from oid assms(2) have "oid = pid" by simp
    with assms(1) fresh show ?thesis unfolding ps squadInv_def by auto
  qed
qed

lemma squadInv_removePlayer:
  assumes "squadInv (players t)"
  shows "squadInv (players (snd (removePlayer t pid)))"
proof (cases "findIndex (\<lambda>p. IPlayerSelection.playerId p = pid) (players t) = - 1")
  case True
  then have "snd (removePlayer t pid) = t" by (simp add: removePlayer_def)
  with assms show ?thesis by simp
next
  case False
  define i where "i = nat (findIndex (\<lambda>p. IPlayerSelection.playerId p = pid) (players t))"
  from False have ps: "players (snd (removePlayer t pid)) = splice1 i (players t)"
    by (simp add: removePlayer_def Let_def i_def)
  from assms have "distinct (map IPlayerSelection.playerId (splice1 i (players t)))"
    by (simp add: squadInv_def splice1_distinct)
  moreover have "length (filter isCaptain (splice1 i (players t))) \<le> 1"
    using assms splice1_filter [of isCaptain i "players t"] by (simp add: squadInv_def)
  moreover have "length (filter isViceCaptain (splice1 i (players t))) \<le> 1"
    using assms splice1_filter [of isViceCaptain i "players t"] by (simp add: squadInv_def)
  moreover have "\<forall>s \<in> set (splice1 i (players t)). \<not> (isCaptain s \<and> isViceCaptain s)"
    using assms splice1_set [of i "players t"] by (auto simp: squadInv_def)
  ultimately show ?thesis unfolding ps squadInv_def by simp
qed

lemma squadInv_perform:
  "squadInv (players t) \<Longrightarrow> canonicalCall c \<Longrightarrow> squadInv (players (snd (perform t c)))"
proof (cases c)
  case (AddPlayer pid price st now)
  assume "squadInv (players t)" "canonicalCall c"
  with AddPlayer show ?thesis using squadInv_addPlayer [of t pid price st now] by simp
next
  case (RemovePlayer pid)
  assume "squadInv (players t)"
  with RemovePlayer show ?thesis by (simp add: squadInv_removePlayer)
next
  case (SetCaptain pid)
  assume "squadInv (players t)"
  with SetCaptain show ?thesis by (simp add: squadInv_setCaptain)
next
  case (SetViceCaptain pid)
  assume "squadInv (players t)"
  with SetViceCaptain show ?thesis by (simp add: squadInv_setViceCaptain)
qed

lemma squadInv_run:
  "squadInv (players t) \<Longrightarrow> \<forall>c \<in> set cs. canonicalCall c \<Longrightarrow> squadInv (players (run t cs))"
proof (induction cs arbitrary: t)
  case Nil
  then show ?case by simp
next
  case (Cons c cs)
  from Cons.prems have "squadInv (players (snd (perform t c)))"
    by (simp add: squadInv_perform)
  moreover from Cons.prems have "\<forall>c \<in> set cs. canonicalCall c" by simp
  ultimately show ?case using Cons.IH by simp
qed

lemma captaincy_canonical:
  assumes "players t = []" and "\<forall>c \<in> set cs. canonicalCall c"
  shows "length (filter isCaptain (players (run t cs))) \<le> 1
       \<and> length (filter isViceCaptain (players (run t cs))) \<le> 1
       \<and> (\<forall>s \<in> set (players (run t cs)). \<not> (isCaptain s \<and> isViceCaptain s))"
proof -
  from assms(1) have "squadInv (players t)" by (simp add: squadInv_def)
  from squadInv_run [OF this assms(2)] show ?thesis by (simp add: squadInv_def)
qed

lemma addPlayer_flags:
  "fst (addPlayer u pid price starting now) = None \<Longrightarrow>
      butlast (players (snd (addPlayer u pid price starting now))) = players u
    \<and> ObjectId pid
        = Some (IPlayerSelection.playerId (last (players (snd (addPlayer u pid price starting now)))))
    \<and> \<not> isCaptain (last (players (snd (addPlayer u pid price starting now))))
    \<and> \<not> isViceCaptain (last (players (snd (addPlayer u pid price starting now))))"
  by (auto simp: addPlayer_def Let_def split: if_splits option.splits)

text \<open>
  Claim C6. In every state reached from a team with no selections by the four squad
  methods, at most one selection is to be captain. Starting from a new team, \<open>addPlayer\<close>
  for an id written in upper case, called twice, succeeds twice, since the duplicate test of
  the second call compares the stored lower-case id with the upper-case argument; the squad
  then holds the player twice, and \<open>setCaptain\<close> for the id in lower case, which succeeds
  too, leaves two selections with \<open>isCaptain\<close> set.
\<close>

theorem captaincy_duplicate_evaluation:
  "players blankTeam = []
 \<and> isValidObjectId idAupper \<and> isValidObjectId idA
 \<and> outcomes blankTeam upperCalls = [None, None, None]
 \<and> players (run blankTeam upperCalls) =
     [(selectionOf idA 5)\<lparr>isCaptain := True, addedAt := 1\<rparr>,
      (selectionOf idA 5)\<lparr>isCaptain := True, addedAt := 2\<rparr>]
 \<and> length (filter isCaptain (players (run blankTeam upperCalls))) = 2"
  by (simp add: upperCalls_def squad_eval binary64_eval)

section \<open>The season state machine: results\<close>

text \<open>
  Claim C7. A save at time \<open>now\<close> turns an Upcoming season with
  \<open>startDate \<le> now \<le> endDate\<close> into an Active one, turns an Active season with
  \<open>endDate < now\<close> into a Completed one with \<open>isFantasyActive\<close> false, and leaves a
  Cancelled season as it is.
\<close>

theorem preSave_transition:
  "(ISeason.status s = UPCOMING \<and> startDate s \<le> now \<and> now \<le> endDate s
      \<longrightarrow> ISeason.status (preSave now s) = SeasonStatus.ACTIVE)
 \<and> (ISeason.status s = SeasonStatus.ACTIVE \<and> endDate s < now
      \<longrightarrow> ISeason.status (preSave now s) = SeasonStatus.COMPLETED
        \<and> \<not> isFantasyActive (preSave now s))
 \<and> (ISeason.status s = SeasonStatus.CANCELLED \<longrightarrow> preSave now s = s)"
  by (simp add: preSave_def)

text \<open>A season from 1000 to 2000: saved at 1500 while Upcoming, saved at 2001 while
  Active, and saved at 1500 while Cancelled.\<close>

theorem preSave_transition_witness:
  "ISeason.status sampleSeason = UPCOMING
 \<and> startDate sampleSeason \<le> 1500 \<and> 1500 \<le> endDate sampleSeason
 \<and> ISeason.status (preSave 1500 sampleSeason) = SeasonStatus.ACTIVE
 \<and> ISeason.status (preSave 2001
      (sampleSeason\<lparr>ISeason.status := SeasonStatus.ACTIVE, isFantasyActive := True\<rparr>))
      = SeasonStatus.COMPLETED
 \<and> \<not> isFantasyActive (preSave 2001
      (sampleSeason\<lparr>ISeason.status := SeasonStatus.ACTIVE, isFantasyActive := True\<rparr>))
 \<and> preSave 1500 (sampleSeason\<lparr>ISeason.status := SeasonStatus.CANCELLED\<rparr>)
      = sampleSeason\<lparr>ISeason.status := SeasonStatus.CANCELLED\<rparr>"
  using preSave_transition [of sampleSeason 1500]
    preSave_transition
      [of "sampleSeason\<lparr>ISeason.status := SeasonStatus.ACTIVE, isFantasyActive := True\<rparr>" 2001]
    preSave_transition [of "sampleSeason\<lparr>ISeason.status := SeasonStatus.CANCELLED\<rparr>" 1500]
  by (simp add: sampleSeason_def preSave_def)

text \<open>
  Claim C10. The save-time hook changes no field other than \<open>status\<close> and
  \<open>isFantasyActive\<close>. When it promotes an Upcoming season to Active it changes \<open>status\<close>
  alone, so \<open>isFantasyActive\<close> keeps its value, and a season that had the default false is
  then Active with \<open>isFantasyActive\<close> false. \<open>activateSeason\<close> on an Upcoming season sets
  \<open>status\<close> to Active and \<open>isFantasyActive\<close> to true on the document it saves; unless the
  season has already ended at that save, the call leaves the season Active with
  \<open>isFantasyActive\<close> true.
\<close>

theorem preSave_frame:
  "preSave now s = s\<lparr>ISeason.status := ISeason.status (preSave now s),
                     isFantasyActive := isFantasyActive (preSave now s)\<rparr>
 \<and> (ISeason.status s = UPCOMING \<and> startDate s \<le> now \<and> now \<le> endDate s
      \<longrightarrow> preSave now s = s\<lparr>ISeason.status := SeasonStatus.ACTIVE\<rparr>
        \<and> isFantasyActive (preSave now s) = isFantasyActive s)
 \<and> (ISeason.status s = UPCOMING
      \<longrightarrow> activateSeason s now =
            (None, preSave now (s\<lparr>ISeason.status := SeasonStatus.ACTIVE, isFantasyActive := True\<rparr>))
        \<and> (now \<le> endDate s \<longrightarrow> ISeason.status (snd (activateSeason s now)) = SeasonStatus.ACTIVE
                               \<and> isFantasyActive (snd (activateSeason s now))))"
  by (simp add: preSave_def activateSeason_def)

text \<open>The same season, Upcoming with \<open>isFantasyActive\<close> false: a save at 1500 makes it
  Active and leaves the flag false; \<open>activateSeason\<close> at 1500 makes it Active with the
  flag true.\<close>

theorem preSave_frame_witness:
  "ISeason.status sampleSeason = UPCOMING
 \<and> startDate sampleSeason \<le> 1500 \<and> 1500 \<le> endDate sampleSeason
 \<and> \<not> isFantasyActive sampleSeason
 \<and> preSave 1500 sampleSeason = sampleSeason\<lparr>ISeason.status := SeasonStatus.ACTIVE\<rparr>
 \<and> ISeason.status (preSave 1500 sampleSeason) = SeasonStatus.ACTIVE
 \<and> \<not> isFantasyActive (preSave 1500 sampleSeason)
 \<and> ISeason.status (snd (activateSeason sampleSeason 1500)) = SeasonStatus.ACTIVE
 \<and> isFantasyActive (snd (activateSeason sampleSeason 1500))"
  using preSave_frame [of 1500 sampleSeason]
  by (simp add: sampleSeason_def preSave_def activateSeason_def)

section \<open>Match score and result: results\<close>

lemma updateScore_fields:
  "IMatch.status (updateScore m h a now) = IMatch.status m"
  "map_option ITeamScore.goals (homeTeamScore (updateScore m h a now)) = Some h"
  "map_option ITeamScore.goals (awayTeamScore (updateScore m h a now)) = Some a"
  "result (updateScore m h a now)
     = Some (if h > a then HOME_WIN else if a > h then AWAY_WIN else DRAW)"
  by (simp_all add: updateScore_def newTeamScore_def Let_def split: option.splits)

text \<open>
  \<open>updateScore\<close> sets \<open>result\<close> whatever the status of the match. On a scheduled match
  without a result, \<open>updateScore\<close> with 2 and 1 leaves the match scheduled, so not finished,
  and its result is the home win.
\<close>

theorem updateScore_unfinished_counterexample:
  "IMatch.status scheduledMatch = SCHEDULED \<and> result scheduledMatch = None
 \<and> IMatch.status (updateScore scheduledMatch 2 1 4000) = SCHEDULED
 \<and> IMatch.status (updateScore scheduledMatch 2 1 4000) \<noteq> FINISHED
 \<and> result (updateScore scheduledMatch 2 1 4000) = Some HOME_WIN"
  by (simp add: scheduledMatch_def updateScore_def newTeamScore_def)

text \<open>
  Claim C9, amended. For every Match, in any status, \<open>updateScore\<close> stores the two goal
  counts, leaves the status as it is and derives \<open>result\<close> from their comparison: the home
  win when the home goals exceed the away goals, the away win when the away goals exceed
  the home goals, the draw when they are equal. \<open>finishMatch\<close> on a live or half-time match
  sets the status to finished and leaves \<open>result\<close> and both scores as they were.
\<close>

theorem updateScore_result:
  "IMatch.status (updateScore m h a now) = IMatch.status m
 \<and> map_option ITeamScore.goals (homeTeamScore (updateScore m h a now)) = Some h
 \<and> map_option ITeamScore.goals (awayTeamScore (updateScore m h a now)) = Some a
 \<and> (h > a \<longrightarrow> result (updateScore m h a now) = Some HOME_WIN)
 \<and> (a > h \<longrightarrow> result (updateScore m h a now) = Some AWAY_WIN)
 \<and> (h = a \<longrightarrow> result (updateScore m h a now) = Some DRAW)
 \<and> (IMatch.status m = LIVE \<or> IMatch.status m = HALFTIME \<longrightarrow>
      fst (finishMatch m now) = None
      \<and> IMatch.status (snd (finishMatch m now)) = FINISHED
      \<and> result (snd (finishMatch m now)) = result m
      \<and> homeTeamScore (snd (finishMatch m now)) = homeTeamScore m
      \<and> awayTeamScore (snd (finishMatch m now)) = awayTeamScore m)"
  by (simp add: updateScore_fields finishMatch_def)

text \<open>The three comparisons on a scheduled match, and a match started, scored 2 to 1 and
  finished.\<close>

theorem updateScore_result_witness:
  "result (updateScore scheduledMatch 2 1 4000) = Some HOME_WIN
 \<and> result (updateScore scheduledMatch 0 3 4000) = Some AWAY_WIN
 \<and> result (updateScore scheduledMatch 1 1 4000) = Some DRAW
 \<and> IMatch.status (snd (startMatch scheduledMatch 5000)) = LIVE
 \<and> IMatch.status (snd (finishMatch (updateScore (snd (startMatch scheduledMatch 5000)) 2 1 6000) 7000))
      = FINISHED
 \<and> result (snd (finishMatch (updateScore (snd (startMatch scheduledMatch 5000)) 2 1 6000) 7000))
      = Some HOME_WIN"
  using updateScore_result [of scheduledMatch 2 1 4000]
    updateScore_result [of scheduledMatch 0 3 4000]
    updateScore_result [of scheduledMatch 1 1 4000]
    updateScore_result [of "updateScore (snd (startMatch scheduledMatch 5000)) 2 1 6000" 2 1 7000]
  by (simp add: scheduledMatch_def updateScore_def newTeamScore_def startMatch_def finishMatch_def)

section \<open>Soft delete of teams: results\<close>

lemma preFind_default:
  "onDeletedAt q = None \<Longrightarrow> matches (preFind q) d = (deletedAt d = None \<and> matches q d)"
  by (auto simp: preFind_def matches_def)

lemma matches_byId:
  "matches (preFind (noFilter\<lparr>onId := Some i\<rparr>)) d = (docId d = i \<and> deletedAt d = None)"
  by (simp add: preFind_def matches_def noFilter_def)

lemma matches_deleted:
  "matches (preFind (noFilter\<lparr>onDeletedAt := Some NeNull\<rparr>)) d = (deletedAt d \<noteq> None)"
  by (simp add: preFind_def matches_def noFilter_def)

lemma findTeams_all: "findTeams db noFilter = filter (\<lambda>d. deletedAt d = None) db"
  by (simp add: findTeams_def preFind_def matches_def noFilter_def cong: filter_cong)

lemma findById_iff:
  "findById db i = None \<longleftrightarrow> (\<forall>d \<in> set db. docId d = i \<longrightarrow> deletedAt d \<noteq> None)"
  by (auto simp: findById_def findOne_def find_None_iff matches_byId)

lemma findDeleted_eq: "findDeleted db = filter (\<lambda>d. deletedAt d \<noteq> None) db"
  by (simp add: findDeleted_def findTeams_def matches_deleted cong: filter_cong)

lemma save_set:
  "doc \<in> set (save db doc) \<and> (\<forall>d \<in> set (save db doc). docId d = docId doc \<longrightarrow> d = doc)"
proof (cases "docId doc \<in> set (map docId db)")
  case True
  then show ?thesis by (auto simp: save_def)
next
  case False
  have "docId d \<noteq> docId doc" if "d \<in> set db" for d
  proof
    assume "docId d = docId doc"
    with that have "docId doc \<in> set (map docId db)" by (metis imageI list.set_map)
    with False show False by contradiction
  qed
  with False show ?thesis by (simp add: save_def)
qed

text \<open>
  Claim C8. For every Team: after \<open>delete()\<close> the document has \<open>deletedAt\<close> set and
  \<open>isActive\<close> false, no result of \<open>find({})\<close> has its id, \<open>findById\<close> of its id finds
  nothing, and \<open>findDeleted()\<close> returns it; after \<open>delete({hard: true})\<close> no result of
  \<open>find({})\<close>, \<open>findById\<close> or \<open>findDeleted()\<close> has its id. \<open>find({})\<close> returns exactly the
  stored documents whose \<open>deletedAt\<close> is null, and a query that puts no condition on
  \<open>deletedAt\<close> returns exactly the documents that match it and whose \<open>deletedAt\<close> is null.
\<close>

theorem soft_delete_visibility:
  "(let db' = fst (delete db t None now); t' = snd (delete db t None now)
    in deletedAt t' = Some now \<and> \<not> ITeam.isActive t' \<and> docId t' = docId t
     \<and> docId t \<notin> docId ` set (findTeams db' noFilter)
     \<and> findById db' (docId t) = None
     \<and> t' \<in> set (findDeleted db'))
 \<and> (let db' = fst (delete db t (Some True) now)
     in docId t \<notin> docId ` set (findTeams db' noFilter)
      \<and> findById db' (docId t) = None
      \<and> docId t \<notin> docId ` set (findDeleted db'))
 \<and> findTeams db noFilter = filter (\<lambda>d. deletedAt d = None) db
 \<and> (onDeletedAt q = None \<longrightarrow>
      findTeams db q = filter (\<lambda>d. deletedAt d = None \<and> matches q d) db)"
proof -
  define t' where "t' = t\<lparr>deletedAt := Some now, ITeam.isActive := False\<rparr>"
  have soft: "delete db t None now = (save db t', t')"
    by (simp add: delete_def t'_def Let_def)
  have id: "docId t' = docId t" by (simp add: t'_def)
  from save_set [of t' db] have
    mem: "t' \<in> set (save db t')" and
    uniq: "\<forall>d \<in> set (save db t'). docId d = docId t \<longrightarrow> d = t'"
    by (simp_all add: id)
  have del: "deletedAt t' = Some now" by (simp add: t'_def)
  have 1: "docId t \<notin> docId ` set (findTeams (save db t') noFilter)"
    using uniq del by (auto simp: findTeams_all)
  have 2: "findById (save db t') (docId t) = None"
    using uniq del by (auto simp: findById_iff)
  have 3: "t' \<in> set (findDeleted (save db t'))"
    using mem del by (simp add: findDeleted_eq)
  have A: "deletedAt t' = Some now \<and> \<not> ITeam.isActive t' \<and> docId t' = docId t
      \<and> docId t \<notin> docId ` set (findTeams (save db t') noFilter)
      \<and> findById (save db t') (docId t) = None
      \<and> t' \<in> set (findDeleted (save db t'))"
    using 1 2 3 del id by (simp add: t'_def)
  have hard: "fst (delete db t (Some True) now) = deleteOne db t"
    by (simp add: delete_def)
  have B: "docId t \<notin> docId ` set (findTeams (deleteOne db t) noFilter)
      \<and> findById (deleteOne db t) (docId t) = None
      \<and> docId t \<notin> docId ` set (findDeleted (deleteOne db t))"
    by (auto simp: deleteOne_def findTeams_all findById_iff findDeleted_eq)
  have C: "onDeletedAt q = None \<longrightarrow>
      findTeams db q = filter (\<lambda>d. deletedAt d = None \<and> matches q d) db"
    by (simp add: findTeams_def preFind_default cong: filter_cong)
  show ?thesis
    using A B C by (simp add: soft hard findTeams_all Let_def)
qed

text \<open>A collection of two teams: the soft delete of the second hides it from \<open>find({})\<close>
  and \<open>findById\<close> and shows it in \<open>findDeleted()\<close>; its hard delete shows it nowhere.\<close>

theorem soft_delete_visibility_witness:
  "onDeletedAt noFilter = None
 \<and> findTeams (fst (delete [sampleTeam ''t0'', sampleTeam ''t1''] (sampleTeam ''t1'') None 9)) noFilter
      = [sampleTeam ''t0'']
 \<and> findById (fst (delete [sampleTeam ''t0'', sampleTeam ''t1''] (sampleTeam ''t1'') None 9)) ''t1''
      = None
 \<and> findDeleted (fst (delete [sampleTeam ''t0'', sampleTeam ''t1''] (sampleTeam ''t1'') None 9))
      = [(sampleTeam ''t1'')\<lparr>deletedAt := Some 9, ITeam.isActive := False\<rparr>]
 \<and> findDeleted (fst (delete [sampleTeam ''t0'', sampleTeam ''t1''] (sampleTeam ''t1'') (Some True) 9))
      = []
 \<and> findById (fst (delete [sampleTeam ''t0'', sampleTeam ''t1''] (sampleTeam ''t1'') (Some True) 9)) ''t1''
      = None"
  using soft_delete_visibility
    [of "[sampleTeam ''t0'', sampleTeam ''t1'']" "sampleTeam ''t1''" 9 noFilter]
  by (simp add: sampleTeam_def delete_def save_def deleteOne_def findTeams_def findById_def
      findOne_def findDeleted_def preFind_def matches_def noFilter_def Let_def)

end
